theory Spec2Isabelle
  imports Complex_Main "HOL-Library.Log_Nat" "HOL-Library.Sublist"
begin

section \<open>Python values used by the pet core\<close>

text \<open>
  The source is \<^verbatim>\<open>src/Dramagotchi.py\<close>; the logical core is \<^verbatim>\<open>clamp\<close> and the dataclass
  \<^verbatim>\<open>Tamagotchi\<close> (lines 11 to 113), driven by \<^verbatim>\<open>run_cli\<close> (lines 149 to 191).

  A Python \<^verbatim>\<open>str\<close> is a sequence of Unicode code points, so it is modelled as a list of
  code points; \<^verbatim>\<open>len\<close> and \<^verbatim>\<open>*\<close> count code points, not bytes. Python \<^verbatim>\<open>int\<close> is
  unbounded and is modelled by \<open>int\<close>.
\<close>

type_synonym codepoint = nat
type_synonym pystr = "codepoint list"

definition ascii :: "string \<Rightarrow> pystr" where
  "ascii s = map of_char s"

text \<open>\<^verbatim>\<open>sep.join(parts)\<close>.\<close>

fun join :: "pystr \<Rightarrow> pystr list \<Rightarrow> pystr" where
  "join sep [] = []"
| "join sep [x] = x"
| "join sep (x # y # ys) = x @ sep @ join sep (y # ys)"

text \<open>
  The exceptions of the model: \<^verbatim>\<open>OverflowError\<close> from the float arithmetic of \<^verbatim>\<open>tick\<close>,
  \<^verbatim>\<open>EOFError\<close> from \<^verbatim>\<open>input\<close> in \<^verbatim>\<open>run_cli\<close>.
\<close>

datatype py_error = OverflowError | EOFError

subsection \<open>Binary64 arithmetic\<close>

text \<open>
  \<^verbatim>\<open>tick\<close> computes with Python floats (IEEE 754 binary64, round to nearest, ties to
  even). A finite float is the rational it denotes. \<open>round_double\<close> rounds a rational to
  53 significant bits; the exponent is not bounded here, overflow is tested where the
  source converts or multiplies. Gradual underflow is not modelled: the smallest non-zero
  magnitudes \<^verbatim>\<open>tick\<close> forms are one microsecond in seconds and in minutes, far above the
  subnormal range.
\<close>

definition round_half_even :: "rat \<Rightarrow> int" where
  "round_half_even x =
     (let n = \<lfloor>x\<rfloor>; d = x - of_int n
      in if d < 1 / 2 then n else if 1 / 2 < d then n + 1 else if even n then n else n + 1)"

text \<open>For \<open>x > 0\<close>, the \<open>e\<close> with \<open>2 powi e \<le> x < 2 powi (e + 1)\<close>.\<close>

definition binade :: "rat \<Rightarrow> int" where
  "binade x = (case quotient_of x of (a, b) \<Rightarrow>
      let e = bitlen a - bitlen b in if 2 powi e \<le> x then e else e - 1)"

definition round_double :: "rat \<Rightarrow> rat" where
  "round_double x =
     (if x = 0 then 0
      else let u = 2 powi (binade \<bar>x\<bar> - 52)
           in sgn x * of_int (round_half_even (\<bar>x\<bar> / u)) * u)"

text \<open>A rounded magnitude of \<open>2 ^ 1024\<close> or more is no finite binary64 value.\<close>

definition overflows :: "rat \<Rightarrow> bool" where
  "overflows x \<longleftrightarrow> 2 ^ 1024 \<le> \<bar>x\<bar>"

text \<open>
  \<^verbatim>\<open>float(n)\<close>, as the implicit conversion of \<^verbatim>\<open>minutes * rate\<close> performs it: correctly
  rounded, \<^verbatim>\<open>OverflowError\<close> when the integer is too large.
\<close>

definition float_of_int :: "int \<Rightarrow> py_error + rat" where
  "float_of_int n =
     (let r = round_double (of_int n) in if overflows r then Inl OverflowError else Inr r)"

text \<open>\<^verbatim>\<open>int(x)\<close> on a finite float truncates toward zero.\<close>

definition int_of_float :: "rat \<Rightarrow> int" where
  "int_of_float x = (if 0 \<le> x then \<lfloor>x\<rfloor> else \<lceil>x\<rceil>)"

text \<open>
  \<^verbatim>\<open>int(minutes * rate)\<close> for a float \<^verbatim>\<open>minutes\<close> and an int \<^verbatim>\<open>rate\<close>: the rate is
  converted, the product is rounded; a product that overflows is an infinity, on which
  \<^verbatim>\<open>int\<close> raises \<^verbatim>\<open>OverflowError\<close>.
\<close>

definition int_of_product :: "rat \<Rightarrow> int \<Rightarrow> py_error + int" where
  "int_of_product minutes rate =
     (case float_of_int rate of
        Inl e \<Rightarrow> Inl e
      | Inr r \<Rightarrow>
          (let p = round_double (minutes * r)
           in if overflows p then Inl OverflowError else Inr (int_of_float p)))"

subsection \<open>Time\<close>

text \<open>
  A naive \<^verbatim>\<open>datetime\<close> has microsecond resolution: it is modelled by its number of
  microseconds since the first representable instant, and the \<^verbatim>\<open>timedelta\<close>
  \<^verbatim>\<open>now - self.last_update\<close> by the difference. \<^verbatim>\<open>datetime.now()\<close> is the argument
  \<open>now\<close> of every operation.

  \<^verbatim>\<open>timedelta.total_seconds()\<close> is the true division of the microsecond count by
  \<^verbatim>\<open>10**6\<close>, correctly rounded; \<^verbatim>\<open>/ 60\<close> is a float division.
\<close>

type_synonym datetime = int

definition total_seconds :: "int \<Rightarrow> rat" where
  "total_seconds us = round_double (of_int us / 10 ^ 6)"

definition elapsed_minutes :: "datetime \<Rightarrow> datetime \<Rightarrow> rat" where
  "elapsed_minutes since now = round_double (total_seconds (now - since) / 60)"

section \<open>The pet\<close>

definition MAX_STAT :: int where "MAX_STAT = 100"
definition MIN_STAT :: int where "MIN_STAT = 0"

definition clamp :: "int \<Rightarrow> int \<Rightarrow> int \<Rightarrow> int" where
  "clamp v low high = max low (min high v)"

text \<open>\<^verbatim>\<open>clamp(value)\<close> with the default bounds.\<close>

definition clamp_stat :: "int \<Rightarrow> int" where
  "clamp_stat v = clamp v MIN_STAT MAX_STAT"

record Tamagotchi =
  name :: pystr
  hunger :: int
  happiness :: int
  energy :: int
  hygiene :: int
  last_update :: datetime
  hunger_decay :: int
  happiness_decay :: int
  energy_decay :: int
  hygiene_decay :: int

text \<open>\<^verbatim>\<open>Tamagotchi(name)\<close>, constructed when the clock reads \<open>now\<close>.\<close>

definition create :: "pystr \<Rightarrow> datetime \<Rightarrow> Tamagotchi" where
  "create n now =
     \<lparr>name = n, hunger = 65, happiness = 60, energy = 55, hygiene = 70, last_update = now,
      hunger_decay = 4, happiness_decay = 2, energy_decay = 3, hygiene_decay = 1\<rparr>"

text \<open>The local function \<^verbatim>\<open>decay\<close> of \<^verbatim>\<open>tick\<close>.\<close>

definition decay :: "rat \<Rightarrow> int \<Rightarrow> int \<Rightarrow> py_error + int" where
  "decay minutes stat rate =
     (case int_of_product minutes rate of
        Inl e \<Rightarrow> Inl e
      | Inr d \<Rightarrow> Inr (clamp_stat (stat - d)))"

text \<open>
  Every method mutates the object in place and returns or raises. The model returns the
  object after the call together with the outcome: \<open>Inr\<close> the returned value, \<open>Inl\<close> the
  exception. The assignments of \<^verbatim>\<open>tick\<close> run in order, so an exception in a later one
  leaves the earlier ones done.
\<close>

definition tick :: "datetime \<Rightarrow> Tamagotchi \<Rightarrow> Tamagotchi \<times> (py_error + unit)" where
  "tick now s =
     (let minutes = elapsed_minutes (last_update s) now
      in if minutes \<le> 0 then (s, Inr ())
         else
           (case decay minutes (hunger s) (hunger_decay s) of
              Inl e \<Rightarrow> (s, Inl e)
            | Inr h \<Rightarrow>
           (case decay minutes (happiness s) (happiness_decay s) of
              Inl e \<Rightarrow> (s\<lparr>hunger := h\<rparr>, Inl e)
            | Inr p \<Rightarrow>
           (case decay minutes (energy s) (energy_decay s) of
              Inl e \<Rightarrow> (s\<lparr>hunger := h, happiness := p\<rparr>, Inl e)
            | Inr n \<Rightarrow>
           (case decay minutes (hygiene s) (hygiene_decay s) of
              Inl e \<Rightarrow> (s\<lparr>hunger := h, happiness := p, energy := n\<rparr>, Inl e)
            | Inr g \<Rightarrow>
                (s\<lparr>hunger := h, happiness := p, energy := n, hygiene := g,
                   last_update := now\<rparr>, Inr ()))))))"

definition is_alive :: "Tamagotchi \<Rightarrow> bool" where
  "is_alive s \<longleftrightarrow>
     list_all (\<lambda>stat. stat > MIN_STAT) [hunger s, happiness s, energy s, hygiene s]"

text \<open>
  \<^verbatim>\<open>_mood_text\<close>: the list \<^verbatim>\<open>moods\<close>, the comprehension \<^verbatim>\<open>needs\<close> and the two
  f-strings.
\<close>

definition moods :: "Tamagotchi \<Rightarrow> (int \<times> pystr) list" where
  "moods s =
     [(hunger s, ascii ''hungry''), (happiness s, ascii ''bored''),
      (energy s, ascii ''sleepy''), (hygiene s, ascii ''dirty'')]"

definition needs :: "Tamagotchi \<Rightarrow> pystr list" where
  "needs s = map snd (filter (\<lambda>(v, n). v < 30) (moods s))"

definition mood_text :: "Tamagotchi \<Rightarrow> pystr" where
  "mood_text s =
     (if needs s = [] then name s @ ascii '' is feeling great!''
      else name s @ ascii '' feels a bit '' @ join (ascii '' and '') (needs s) @ ascii ''.'')"

subsection \<open>Status display\<close>

text \<open>The bar glyph is U+2588 FULL BLOCK, the line separator is U+000A.\<close>

definition FULL_BLOCK :: codepoint where "FULL_BLOCK = 9608"

text \<open>Decimal digits of a natural number, as \<^verbatim>\<open>d\<close> formatting writes them.\<close>

fun digits :: "nat \<Rightarrow> pystr" where
  "digits n = (if n < 10 then [48 + n] else digits (n div 10) @ [48 + n mod 10])"

declare digits.simps [simp del]

text \<open>The number a string of decimal digits denotes.\<close>

definition decimal_value :: "pystr \<Rightarrow> nat" where
  "decimal_value ds = foldl (\<lambda>acc d. 10 * acc + (d - 48)) 0 ds"

text \<open>Right alignment in a field of width \<open>w\<close>, padding with spaces, never cutting.\<close>

definition rjust :: "nat \<Rightarrow> pystr \<Rightarrow> pystr" where
  "rjust w x = replicate (w - length x) 32 @ x"

text \<open>\<^verbatim>\<open>{value:3d}\<close>: sign only when negative, width at least 3.\<close>

definition format_3d :: "int \<Rightarrow> pystr" where
  "format_3d v = rjust 3 (if v < 0 then 45 # digits (nat (- v)) else digits (nat v))"

text \<open>
  One element of the generator in \<^verbatim>\<open>summary\<close>. \<^verbatim>\<open>//\<close> is floor division, and a string
  times a negative count is empty.
\<close>

definition stat_line :: "pystr \<times> int \<Rightarrow> pystr" where
  "stat_line lv =
     (case lv of (label, v) \<Rightarrow>
        rjust 10 label @ ascii '': '' @ format_3d v @ ascii '' % |''
          @ replicate (nat (v div 5)) FULL_BLOCK)"

text \<open>The dict \<^verbatim>\<open>bars\<close>, in insertion order.\<close>

definition bars :: "Tamagotchi \<Rightarrow> (pystr \<times> int) list" where
  "bars s =
     [(ascii ''Hunger'', hunger s), (ascii ''Happiness'', happiness s),
      (ascii ''Energy'', energy s), (ascii ''Hygiene'', hygiene s)]"

definition summary :: "Tamagotchi \<Rightarrow> pystr" where
  "summary s = join [10] (map stat_line (bars s))"

subsection \<open>Actions\<close>

definition feed :: "datetime \<Rightarrow> Tamagotchi \<Rightarrow> Tamagotchi \<times> (py_error + pystr)" where
  "feed now s =
     (case tick now s of
        (s0, Inl e) \<Rightarrow> (s0, Inl e)
      | (s0, Inr _) \<Rightarrow>
          (let s1 = s0\<lparr>hunger := clamp_stat (hunger s0 + 25)\<rparr>;
               s2 = s1\<lparr>energy := clamp_stat (energy s1 + 5)\<rparr>;
               s3 = s2\<lparr>hygiene := clamp_stat (hygiene s2 - 5)\<rparr>
           in (s3, Inr (ascii ''Yummy! '' @ mood_text s3))))"

definition play :: "datetime \<Rightarrow> Tamagotchi \<Rightarrow> Tamagotchi \<times> (py_error + pystr)" where
  "play now s =
     (case tick now s of
        (s0, Inl e) \<Rightarrow> (s0, Inl e)
      | (s0, Inr _) \<Rightarrow>
          if energy s0 < 15
          then (s0, Inr (ascii ''Too tired to play right now. Maybe a nap first?''))
          else
            (let s1 = s0\<lparr>happiness := clamp_stat (happiness s0 + 20)\<rparr>;
                 s2 = s1\<lparr>energy := clamp_stat (energy s1 - 15)\<rparr>;
                 s3 = s2\<lparr>hunger := clamp_stat (hunger s2 - 10)\<rparr>;
                 s4 = s3\<lparr>hygiene := clamp_stat (hygiene s3 - 5)\<rparr>
             in (s4, Inr (ascii ''That was fun! '' @ mood_text s4))))"

definition sleep :: "datetime \<Rightarrow> Tamagotchi \<Rightarrow> Tamagotchi \<times> (py_error + pystr)" where
  "sleep now s =
     (case tick now s of
        (s0, Inl e) \<Rightarrow> (s0, Inl e)
      | (s0, Inr _) \<Rightarrow>
          (let s1 = s0\<lparr>energy := clamp_stat (energy s0 + 25)\<rparr>;
               s2 = s1\<lparr>hunger := clamp_stat (hunger s1 - 10)\<rparr>
           in (s2, Inr (ascii ''Zzz... Feeling rested now!''))))"

definition clean :: "datetime \<Rightarrow> Tamagotchi \<Rightarrow> Tamagotchi \<times> (py_error + pystr)" where
  "clean now s =
     (case tick now s of
        (s0, Inl e) \<Rightarrow> (s0, Inl e)
      | (s0, Inr _) \<Rightarrow>
          (let s1 = s0\<lparr>hygiene := clamp_stat (hygiene s0 + 30)\<rparr>;
               s2 = s1\<lparr>happiness := clamp_stat (happiness s1 - 5)\<rparr>
           in (s2, Inr (ascii ''Splash splash! All squeaky clean.''))))"

definition talk :: "datetime \<Rightarrow> Tamagotchi \<Rightarrow> Tamagotchi \<times> (py_error + pystr)" where
  "talk now s =
     (case tick now s of
        (s0, Inl e) \<Rightarrow> (s0, Inl e)
      | (s0, Inr _) \<Rightarrow> (s0, Inr (mood_text s0)))"

subsection \<open>The text interface\<close>

text \<open>
  \<^verbatim>\<open>CANONICAL_ACTIONS\<close> and \<^verbatim>\<open>available_actions\<close>; 252 is U+00FC and 228 is U+00E4.
\<close>

definition CANONICAL_ACTIONS :: "pystr list" where
  "CANONICAL_ACTIONS =
     [ascii ''f'' @ [252] @ ascii ''ttern'', ascii ''spielen'', ascii ''schlafen'',
      ascii ''waschen'', ascii ''reden'', ascii ''status'', ascii ''ende'']"

definition available_actions :: pystr where
  "available_actions =
     ascii ''Verf'' @ [252] @ ascii ''gbare Aktionen: '' @ join (ascii '', '') CANONICAL_ACTIONS"

definition farewell :: pystr where
  "farewell = ascii ''Bis zum n'' @ [228] @ ascii ''chsten Mal!''"

text \<open>
  The dict \<^verbatim>\<open>actions\<close> of \<^verbatim>\<open>run_cli\<close>. Each value is a callable without arguments; the
  model passes the object and the clock reading the callable may take. \<^verbatim>\<open>pet.summary\<close>,
  \<^verbatim>\<open>available_actions\<close> and the two lambdas read no clock and mutate nothing.
\<close>

type_synonym action = "datetime \<Rightarrow> Tamagotchi \<Rightarrow> Tamagotchi \<times> (py_error + pystr)"

definition actions :: "(pystr \<times> action) list" where
  "actions =
     [(ascii ''f'' @ [252] @ ascii ''ttern'', feed),
      (ascii ''futter'', feed),
      (ascii ''feed'', feed),
      (ascii ''spielen'', play),
      (ascii ''play'', play),
      (ascii ''schlafen'', sleep),
      (ascii ''sleep'', sleep),
      (ascii ''waschen'', clean),
      (ascii ''clean'', clean),
      (ascii ''reden'', talk),
      (ascii ''talk'', talk),
      (ascii ''status'', \<lambda>now s. (s, Inr (summary s))),
      (ascii ''hilfe'', \<lambda>now s. (s, Inr available_actions)),
      (ascii ''help'', \<lambda>now s. (s, Inr available_actions)),
      (ascii ''quit'', \<lambda>now s. (s, Inr farewell)),
      (ascii ''ende'', \<lambda>now s. (s, Inr farewell))]"

text \<open>
  The part of the loop body of \<^verbatim>\<open>run_cli\<close> that touches the pet, for a non-empty
  command: \<^verbatim>\<open>pet.tick()\<close> when the clock reads \<open>t1\<close>, the lookup, and the action when the
  clock reads \<open>t2\<close>. The response is \<open>None\<close> for an unknown command.
\<close>

definition cli_command ::
  "pystr \<Rightarrow> datetime \<Rightarrow> datetime \<Rightarrow> Tamagotchi \<Rightarrow> Tamagotchi \<times> (py_error + pystr option)" where
  "cli_command command t1 t2 pet =
     (case tick t1 pet of
        (pet1, Inl e) \<Rightarrow> (pet1, Inl e)
      | (pet1, Inr _) \<Rightarrow>
          (case map_of actions command of
             None \<Rightarrow> (pet1, Inr None)
           | Some act \<Rightarrow>
               (case act t2 pet1 of
                  (pet2, Inl e) \<Rightarrow> (pet2, Inl e)
                | (pet2, Inr response) \<Rightarrow> (pet2, Inr (Some response)))))"

text \<open>
  The status query as the text interface runs it: the leading \<^verbatim>\<open>pet.tick()\<close> of the loop
  body, then \<^verbatim>\<open>pet.summary()\<close>.
\<close>

definition status :: "datetime \<Rightarrow> Tamagotchi \<Rightarrow> Tamagotchi \<times> (py_error + pystr)" where
  "status now s =
     (case tick now s of
        (s0, Inl e) \<Rightarrow> (s0, Inl e)
      | (s0, Inr _) \<Rightarrow> (s0, Inr (summary s0)))"

text \<open>
  The \<^verbatim>\<open>while pet.is_alive\<close> loop of \<^verbatim>\<open>run_cli\<close>, as far as the pet is concerned. Each
  element of the list is one line read by \<^verbatim>\<open>input\<close>, after \<^verbatim>\<open>strip().lower()\<close>, with the
  two clock readings of that round. When the lines run out \<^verbatim>\<open>input\<close> raises
  \<^verbatim>\<open>EOFError\<close>. Printing is left out, and so is \<^verbatim>\<open>KeyboardInterrupt\<close>.
\<close>

fun run_cli_loop ::
  "Tamagotchi \<Rightarrow> (pystr \<times> datetime \<times> datetime) list \<Rightarrow> Tamagotchi \<times> (py_error + unit)" where
  "run_cli_loop pet [] = (if is_alive pet then (pet, Inl EOFError) else (pet, Inr ()))"
| "run_cli_loop pet ((command, t1, t2) # rest) =
     (if \<not> is_alive pet then (pet, Inr ())
      else if command = [] then run_cli_loop pet rest
      else
        (case cli_command command t1 t2 pet of
           (pet1, Inl e) \<Rightarrow> (pet1, Inl e)
         | (pet1, Inr None) \<Rightarrow> run_cli_loop pet1 rest
         | (pet1, Inr (Some response)) \<Rightarrow>
             if command \<in> {ascii ''quit'', ascii ''ende''} then (pet1, Inr ())
             else run_cli_loop pet1 rest))"

section \<open>Properties\<close>

definition stats :: "Tamagotchi \<Rightarrow> int list" where
  "stats s = [hunger s, happiness s, energy s, hygiene s]"

definition stats_in_range :: "Tamagotchi \<Rightarrow> bool" where
  "stats_in_range s \<longleftrightarrow> list_all (\<lambda>v. MIN_STAT \<le> v \<and> v \<le> MAX_STAT) (stats s)"

text \<open>
  The states a pet can be in: it is constructed with a name only, as both interfaces do,
  and then any operation runs at any clock reading, returning or raising.
\<close>

inductive reachable :: "Tamagotchi \<Rightarrow> bool" where
  created: "reachable (create n t)"
| ticked: "reachable s \<Longrightarrow> reachable (fst (tick now s))"
| fed: "reachable s \<Longrightarrow> reachable (fst (feed now s))"
| played: "reachable s \<Longrightarrow> reachable (fst (play now s))"
| slept: "reachable s \<Longrightarrow> reachable (fst (sleep now s))"
| cleaned: "reachable s \<Longrightarrow> reachable (fst (clean now s))"
| talked: "reachable s \<Longrightarrow> reachable (fst (talk now s))"
| queried: "reachable s \<Longrightarrow> reachable (fst (status now s))"

text \<open>The value of \<^verbatim>\<open>int(minutes * rate)\<close> when nothing overflows.\<close>

definition product_value :: "rat \<Rightarrow> int \<Rightarrow> int" where
  "product_value minutes rate = int_of_float (round_double (minutes * round_double (of_int rate)))"

text \<open>The decay rates are points lost per minute: none is negative.\<close>

definition decay_rates_nonneg :: "Tamagotchi \<Rightarrow> bool" where
  "decay_rates_nonneg s \<longleftrightarrow>
     list_all (\<lambda>rate. 0 \<le> rate)
       [hunger_decay s, happiness_decay s, energy_decay s, hygiene_decay s]"

text \<open>Pets and clock readings used as examples; times are in microseconds.\<close>

definition pip :: Tamagotchi where
  "pip = create (ascii ''Pip'') 0"

definition minute :: int where
  "minute = 60000000"

text \<open>
  Magnitudes at which no conversion and no product of \<^verbatim>\<open>tick\<close> overflows. Any two
  \<^verbatim>\<open>datetime\<close> values are less than \<open>2 ^ 59\<close> microseconds apart.
\<close>

definition within_float_range :: "Tamagotchi \<Rightarrow> datetime \<Rightarrow> bool" where
  "within_float_range s now \<longleftrightarrow>
     \<bar>now - last_update s\<bar> < 2 ^ 500 \<and>
     list_all (\<lambda>rate. \<bar>rate\<bar> < 2 ^ 500)
       [hunger_decay s, happiness_decay s, energy_decay s, hygiene_decay s]"

text \<open>The pet after seventeen minutes without care, and \<^verbatim>\<open>Tamagotchi("Pip", 10, 80, 10, 80)\<close>.\<close>

definition starved :: Tamagotchi where
  "starved = fst (tick (17 * minute) pip)"

definition peckish :: Tamagotchi where
  "peckish = (create (ascii ''Pip'') 0)\<lparr>hunger := 10, happiness := 80, energy := 10, hygiene := 80\<rparr>"

text \<open>
  The pet after fifteen minutes without care, the pet fed once, and the pet played with
  twice, the actions taken at the moment of construction.
\<close>

definition tired :: Tamagotchi where
  "tired = fst (tick (15 * minute) pip)"

definition fed_once :: Tamagotchi where
  "fed_once = fst (feed 0 pip)"

definition played_twice :: Tamagotchi where
  "played_twice = fst (play 0 (fst (play 0 pip)))"

section \<open>Rounding keeps the sign and at most doubles the magnitude\<close>

lemma round_half_even_ge_1: "1 \<le> x \<Longrightarrow> 1 \<le> round_half_even x"
proof -
  assume "1 \<le> x"
  then have "1 \<le> \<lfloor>x\<rfloor>" by simp
  then show ?thesis by (simp add: round_half_even_def Let_def)
qed

lemma binade_le:
  assumes "0 < x"
  shows "2 powi (binade x) \<le> x"
proof -
  obtain a b where q: "quotient_of x = (a, b)" by (cases "quotient_of x")
  then have b: "0 < b" by (rule quotient_of_denom_pos)
  from q have x: "x = of_int a / of_int b" by (rule quotient_of_div)
  with assms b have a: "0 < a" by (simp add: zero_less_divide_iff)
  define e where "e = bitlen a - bitlen b"
  show ?thesis
  proof (cases "2 powi e \<le> x")
    case True
    then show ?thesis by (simp add: binade_def q e_def Let_def)
  next
    case False
    then have be: "binade x = e - 1" by (simp add: binade_def q e_def Let_def)
    have la: "1 \<le> bitlen a" using a by (simp add: bitlen_alt_def)
    have lb: "1 \<le> bitlen b" using b by (simp add: bitlen_alt_def)
    from bitlen_bounds [OF a] have A: "(2::int) ^ nat (bitlen a - 1) \<le> a" by simp
    from bitlen_bounds [OF b] have B: "b < (2::int) ^ nat (bitlen b)" by simp
    have A': "(2::rat) ^ nat (bitlen a - 1) \<le> of_int a"
      using A by (metis of_int_le_iff of_int_numeral of_int_power)
    have B': "of_int b \<le> (2::rat) ^ nat (bitlen b)"
      using B by (metis less_imp_le of_int_le_iff of_int_numeral of_int_power)
    have "(2::rat) powi (e - 1) = 2 powi (bitlen a - 1) / 2 powi (bitlen b)"
      by (simp add: e_def power_int_diff)
    also have "\<dots> = 2 ^ nat (bitlen a - 1) / 2 ^ nat (bitlen b)"
      using la lb by (simp add: power_int_def)
    also have "\<dots> \<le> of_int a / of_int b"
      using A' B' a b by (intro frac_le) auto
    finally show ?thesis using be x by simp
  qed
qed

lemma round_double_pos:
  assumes "0 < x"
  shows "0 < round_double x"
proof -
  define u :: rat where "u = 2 powi (binade \<bar>x\<bar> - 52)"
  have u0: "0 < u" by (simp add: u_def)
  have "u \<le> 2 powi (binade \<bar>x\<bar>)"
    unfolding u_def by (rule power_int_increasing) auto
  also have "\<dots> \<le> \<bar>x\<bar>" using assms by (intro binade_le) simp
  finally have "1 \<le> \<bar>x\<bar> / u" using u0 by (simp add: le_divide_eq)
  then have "1 \<le> round_half_even (\<bar>x\<bar> / u)" by (rule round_half_even_ge_1)
  then have "0 < (of_int (round_half_even (\<bar>x\<bar> / u)) :: rat) * u"
    using u0 by simp
  then show ?thesis using assms by (simp add: round_double_def u_def Let_def)
qed

lemma round_double_uminus: "round_double (- x) = - round_double x"
  by (simp add: round_double_def Let_def)

lemma round_double_le_0_iff: "round_double x \<le> 0 \<longleftrightarrow> x \<le> 0"
proof (cases "0 < x")
  case True
  then show ?thesis using round_double_pos [of x] by simp
next
  case False
  show ?thesis
  proof (cases "x = 0")
    case True
    then show ?thesis by (simp add: round_double_def)
  next
    case False
    with \<open>\<not> 0 < x\<close> have "0 < - x" by simp
    then have "0 < round_double (- x)" by (rule round_double_pos)
    then show ?thesis using \<open>\<not> 0 < x\<close> by (simp add: round_double_uminus)
  qed
qed

lemma elapsed_minutes_le_0_iff: "elapsed_minutes since now \<le> 0 \<longleftrightarrow> now \<le> since"
  by (simp add: elapsed_minutes_def total_seconds_def round_double_le_0_iff
      divide_le_0_iff)

lemma binade_less:
  assumes "0 < x"
  shows "x < 2 powi (binade x + 1)"
proof -
  obtain a b where q: "quotient_of x = (a, b)" by (cases "quotient_of x")
  then have b: "0 < b" by (rule quotient_of_denom_pos)
  from q have x: "x = of_int a / of_int b" by (rule quotient_of_div)
  with assms b have a: "0 < a" by (simp add: zero_less_divide_iff)
  define e where "e = bitlen a - bitlen b"
  show ?thesis
  proof (cases "2 powi e \<le> x")
    case False
    then show ?thesis by (simp add: binade_def q e_def Let_def)
  next
    case True
    then have be: "binade x = e" by (simp add: binade_def q e_def Let_def)
    have la: "1 \<le> bitlen a" using a by (simp add: bitlen_alt_def)
    have lb: "1 \<le> bitlen b" using b by (simp add: bitlen_alt_def)
    from bitlen_bounds [OF a] have A: "a < (2::int) ^ nat (bitlen a)" by simp
    from bitlen_bounds [OF b] have B: "(2::int) ^ nat (bitlen b - 1) \<le> b" by simp
    have A': "of_int a < (2::rat) ^ nat (bitlen a)"
      using A by (metis of_int_less_iff of_int_numeral of_int_power)
    have B': "(2::rat) ^ nat (bitlen b - 1) \<le> of_int b"
      using B by (metis of_int_le_iff of_int_numeral of_int_power)
    have "of_int a / of_int b < (2::rat) ^ nat (bitlen a) / 2 ^ nat (bitlen b - 1)"
      using A' B' a b by (intro frac_less) auto
    also have "\<dots> = 2 powi (bitlen a) / 2 powi (bitlen b - 1)"
      using la lb by (simp add: power_int_def)
    also have "\<dots> = 2 powi (e + 1)"
      by (simp add: e_def power_int_diff power_int_add)
    finally show ?thesis using be x by simp
  qed
qed

lemma round_half_even_le: "round_half_even x \<le> \<lfloor>x\<rfloor> + 1"
  by (simp add: round_half_even_def Let_def)

lemma round_double_le_twice:
  assumes "0 < x"
  shows "round_double x \<le> 2 * x"
proof -
  define k where "k = binade x"
  define u :: rat where "u = 2 powi (k - 52)"
  have u0: "0 < u" by (simp add: u_def)
  have "x < 2 powi (k + 1)" unfolding k_def using assms by (rule binade_less)
  also have "\<dots> = 2 ^ 53 * u"
    by (simp add: u_def power_int_diff power_int_add)
  finally have "x / u < 2 ^ 53" using u0 by (simp add: divide_less_eq)
  then have "\<lfloor>x / u\<rfloor> < (2::int) ^ 53" by (simp add: floor_less_iff)
  then have "round_half_even (x / u) \<le> 2 ^ 53"
    using round_half_even_le [of "x / u"] by linarith
  then have "(of_int (round_half_even (x / u)) :: rat) \<le> 2 ^ 53"
    by (metis of_int_le_iff of_int_numeral of_int_power)
  then have "of_int (round_half_even (x / u)) * u \<le> 2 ^ 53 * u"
    using u0 by (simp add: mult_right_mono)
  also have "\<dots> = 2 * 2 powi k"
    by (simp add: u_def power_int_diff)
  also have "\<dots> \<le> 2 * x"
    using binade_le [OF assms] by (simp add: k_def)
  finally show ?thesis using assms by (simp add: round_double_def u_def k_def Let_def)
qed

lemma round_double_abs: "\<bar>round_double x\<bar> \<le> 2 * \<bar>x\<bar>"
proof -
  consider "0 < x" | "x = 0" | "x < 0" by linarith
  then show ?thesis
  proof cases
    case 1
    then show ?thesis
      using round_double_le_twice [of x] round_double_pos [of x] by simp
  next
    case 2
    then show ?thesis by (simp add: round_double_def)
  next
    case 3
    then have "0 < - x" by simp
    then show ?thesis
      using round_double_le_twice [of "- x"] round_double_pos [of "- x"]
      by (simp add: round_double_uminus)
  qed
qed

lemma round_double_nonneg_iff: "0 \<le> round_double x \<longleftrightarrow> 0 \<le> x"
  using round_double_le_0_iff [of "- x"] by (simp add: round_double_uminus)

lemma product_value_floor:
  assumes "0 \<le> m" and "0 \<le> r"
  shows "product_value m r = \<lfloor>round_double (m * round_double (of_int r))\<rfloor>"
proof -
  from assms(2) have "0 \<le> round_double (of_int r)" by (simp add: round_double_nonneg_iff)
  with assms(1) have "0 \<le> round_double (m * round_double (of_int r))"
    by (simp add: round_double_nonneg_iff)
  then show ?thesis by (simp add: product_value_def int_of_float_def)
qed

section \<open>When \<^verbatim>\<open>tick\<close> returns and what it leaves\<close>

lemma clamp_stat_range: "0 \<le> clamp_stat v \<and> clamp_stat v \<le> 100"
  by (simp add: clamp_stat_def clamp_def MIN_STAT_def MAX_STAT_def)

lemma decay_range: "decay m v r = Inr w \<Longrightarrow> 0 \<le> w \<and> w \<le> 100"
  by (auto simp: decay_def clamp_stat_range split: sum.splits)

lemma stats_in_range_iff:
  "stats_in_range s \<longleftrightarrow>
     0 \<le> hunger s \<and> hunger s \<le> 100 \<and> 0 \<le> happiness s \<and> happiness s \<le> 100 \<and>
     0 \<le> energy s \<and> energy s \<le> 100 \<and> 0 \<le> hygiene s \<and> hygiene s \<le> 100"
  by (auto simp: stats_in_range_def stats_def MIN_STAT_def MAX_STAT_def)

lemma tick_noop: "now \<le> last_update s \<Longrightarrow> tick now s = (s, Inr ())"
  by (simp add: tick_def elapsed_minutes_le_0_iff)

lemma int_of_product_value: "int_of_product m r = Inr d \<Longrightarrow> d = product_value m r"
  by (auto simp: int_of_product_def float_of_int_def product_value_def Let_def
      split: if_splits sum.splits)

lemma decay_value: "decay m v r = Inr w \<Longrightarrow> w = clamp_stat (v - product_value m r)"
  by (auto simp: decay_def split: sum.splits dest: int_of_product_value)

lemma tick_advances:
  assumes "last_update s < now" and "snd (tick now s) = Inr ()"
  shows "fst (tick now s) =
     s\<lparr>hunger := clamp_stat (hunger s - product_value (elapsed_minutes (last_update s) now) (hunger_decay s)),
       happiness := clamp_stat (happiness s - product_value (elapsed_minutes (last_update s) now) (happiness_decay s)),
       energy := clamp_stat (energy s - product_value (elapsed_minutes (last_update s) now) (energy_decay s)),
       hygiene := clamp_stat (hygiene s - product_value (elapsed_minutes (last_update s) now) (hygiene_decay s)),
       last_update := now\<rparr>"
proof -
  from assms(1) have pos: "\<not> elapsed_minutes (last_update s) now \<le> 0"
    by (simp add: elapsed_minutes_le_0_iff)
  show ?thesis
    using assms(2) pos
    by (auto simp: tick_def Let_def split: sum.splits dest!: decay_value)
qed

lemma int_of_product_returns:
  assumes m: "\<bar>m\<bar> < 2 ^ 500" and r: "\<bar>r\<bar> < 2 ^ 500"
  shows "int_of_product m r = Inr (product_value m r)"
proof -
  define f where "f = round_double (of_int r)"
  from r have "\<bar>of_int r :: rat\<bar> < 2 ^ 500"
    by (metis of_int_abs of_int_less_iff of_int_numeral of_int_power)
  then have f: "\<bar>f\<bar> < 2 ^ 501"
    using round_double_abs [of "of_int r"] by (simp add: f_def)
  then have nf: "\<not> overflows f" by (simp add: overflows_def)
  have "\<bar>m * f\<bar> = \<bar>m\<bar> * \<bar>f\<bar>" by (simp add: abs_mult)
  also have "\<dots> \<le> 2 ^ 500 * 2 ^ 501"
    using m f by (intro mult_mono) auto
  finally have "\<bar>round_double (m * f)\<bar> \<le> 2 * (2 ^ 500 * 2 ^ 501)"
    using round_double_abs [of "m * f"] by linarith
  then have "\<not> overflows (round_double (m * f))" by (simp add: overflows_def)
  with nf show ?thesis
    by (simp add: int_of_product_def float_of_int_def product_value_def Let_def f_def)
qed

lemma elapsed_minutes_abs: "\<bar>elapsed_minutes since now\<bar> \<le> \<bar>of_int (now - since)\<bar>"
proof -
  define us :: rat where "us = of_int (now - since)"
  have "\<bar>total_seconds (now - since)\<bar> \<le> 2 * \<bar>us / 10 ^ 6\<bar>"
    unfolding total_seconds_def us_def by (rule round_double_abs)
  then have "\<bar>total_seconds (now - since) / 60\<bar> \<le> 2 * \<bar>us / 10 ^ 6\<bar> / 60"
    by (simp add: divide_right_mono)
  moreover have "\<bar>elapsed_minutes since now\<bar> \<le> 2 * \<bar>total_seconds (now - since) / 60\<bar>"
    unfolding elapsed_minutes_def by (rule round_double_abs)
  ultimately have "\<bar>elapsed_minutes since now\<bar> \<le> 2 * (2 * \<bar>us / 10 ^ 6\<bar> / 60)"
    by linarith
  also have "\<dots> \<le> \<bar>us\<bar>" by simp
  finally show ?thesis by (simp add: us_def)
qed

lemma decay_returns:
  assumes "\<bar>m\<bar> < 2 ^ 500" and "\<bar>r\<bar> < 2 ^ 500"
  shows "decay m v r = Inr (clamp_stat (v - product_value m r))"
  by (simp add: decay_def int_of_product_returns [OF assms])

lemma tick_returns:
  assumes "within_float_range s now"
  shows "snd (tick now s) = Inr ()"
proof -
  define m where "m = elapsed_minutes (last_update s) now"
  from assms have "\<bar>of_int (now - last_update s) :: rat\<bar> < 2 ^ 500"
    unfolding within_float_range_def
    by (metis of_int_abs of_int_less_iff of_int_numeral of_int_power)
  then have m: "\<bar>m\<bar> < 2 ^ 500"
    using elapsed_minutes_abs [of "last_update s" now] by (simp add: m_def)
  from assms have r: "\<bar>hunger_decay s\<bar> < 2 ^ 500" "\<bar>happiness_decay s\<bar> < 2 ^ 500"
    "\<bar>energy_decay s\<bar> < 2 ^ 500" "\<bar>hygiene_decay s\<bar> < 2 ^ 500"
    by (simp_all add: within_float_range_def)
  show ?thesis
    unfolding tick_def Let_def m_def [symmetric]
    by (simp add: decay_returns [OF m r(1)] decay_returns [OF m r(2)]
        decay_returns [OF m r(3)] decay_returns [OF m r(4)])
qed

lemma tick_within_float_range:
  assumes "last_update s < now" and "within_float_range s now"
  shows "tick now s =
     (s\<lparr>hunger := clamp_stat (hunger s - product_value (elapsed_minutes (last_update s) now) (hunger_decay s)),
       happiness := clamp_stat (happiness s - product_value (elapsed_minutes (last_update s) now) (happiness_decay s)),
       energy := clamp_stat (energy s - product_value (elapsed_minutes (last_update s) now) (energy_decay s)),
       hygiene := clamp_stat (hygiene s - product_value (elapsed_minutes (last_update s) now) (hygiene_decay s)),
       last_update := now\<rparr>, Inr ())"
  using tick_advances [OF assms(1) tick_returns [OF assms(2)]] tick_returns [OF assms(2)]
  by (simp add: prod_eq_iff)

lemma clamp_stat_simps:
  "clamp_stat v = (if v < 0 then 0 else if 100 < v then 100 else v)"
  by (simp add: clamp_stat_def clamp_def MIN_STAT_def MAX_STAT_def)

section \<open>The range of the stats is invariant\<close>

lemma tick_in_range:
  assumes "stats_in_range s"
  shows "stats_in_range (fst (tick now s))"
  using assms
  by (auto simp: tick_def Let_def stats_in_range_iff split: sum.splits dest: decay_range)

lemma feed_in_range: "stats_in_range s \<Longrightarrow> stats_in_range (fst (feed now s))"
  using tick_in_range [of s now]
  by (auto simp: feed_def Let_def stats_in_range_iff clamp_stat_range
      split: prod.splits sum.splits)

lemma play_in_range: "stats_in_range s \<Longrightarrow> stats_in_range (fst (play now s))"
  using tick_in_range [of s now]
  by (auto simp: play_def Let_def stats_in_range_iff clamp_stat_range
      split: prod.splits sum.splits)

lemma sleep_in_range: "stats_in_range s \<Longrightarrow> stats_in_range (fst (sleep now s))"
  using tick_in_range [of s now]
  by (auto simp: sleep_def Let_def stats_in_range_iff clamp_stat_range
      split: prod.splits sum.splits)

lemma clean_in_range: "stats_in_range s \<Longrightarrow> stats_in_range (fst (clean now s))"
  using tick_in_range [of s now]
  by (auto simp: clean_def Let_def stats_in_range_iff clamp_stat_range
      split: prod.splits sum.splits)

lemma talk_state: "fst (talk now s) = fst (tick now s)"
  by (simp add: talk_def split: prod.splits sum.splits)

lemma status_state: "fst (status now s) = fst (tick now s)"
  by (simp add: status_def split: prod.splits sum.splits)

lemma create_in_range: "stats_in_range (create n t)"
  by (simp add: create_def stats_in_range_iff)

lemma reachable_in_range: "reachable s \<Longrightarrow> stats_in_range s"
proof (induction rule: reachable.induct)
  case (created n t)
  show ?case by (rule create_in_range)
next
  case (ticked s now)
  then show ?case by (simp add: tick_in_range)
next
  case (fed s now)
  then show ?case by (simp add: feed_in_range)
next
  case (played s now)
  then show ?case by (simp add: play_in_range)
next
  case (slept s now)
  then show ?case by (simp add: sleep_in_range)
next
  case (cleaned s now)
  then show ?case by (simp add: clean_in_range)
next
  case (talked s now)
  then show ?case by (simp add: talk_state tick_in_range)
next
  case (queried s now)
  then show ?case by (simp add: status_state tick_in_range)
qed

section \<open>Worked examples\<close>


lemma fifteen_minutes: "elapsed_minutes 0 900000000 = 15"
  by code_simp


lemma pip_fields:
  "name pip = ascii ''Pip''" "hunger pip = 65" "happiness pip = 60" "energy pip = 55"
  "hygiene pip = 70" "last_update pip = 0" "hunger_decay pip = 4" "happiness_decay pip = 2"
  "energy_decay pip = 3" "hygiene_decay pip = 1"
  by (simp_all add: pip_def create_def)

lemma seventeen_minutes: "elapsed_minutes 0 1020000000 = 17"
  by code_simp

lemma product_fifteen_minutes:
  "product_value 15 4 = 60" "product_value 15 2 = 30"
  "product_value 15 3 = 45" "product_value 15 1 = 15"
  by code_simp+

lemma product_seventeen_minutes:
  "product_value 17 4 = 68" "product_value 17 2 = 34"
  "product_value 17 3 = 51" "product_value 17 1 = 17"
  by code_simp+

lemma tick_pip_fifteen:
  "tick (15 * minute) pip =
     (pip\<lparr>hunger := 5, happiness := 30, energy := 10, hygiene := 55,
        last_update := 15 * minute\<rparr>, Inr ())"
proof -
  have a: "last_update pip < 15 * minute" by (simp add: pip_def create_def minute_def)
  have b: "within_float_range pip (15 * minute)"
    by (simp add: pip_def create_def minute_def within_float_range_def)
  have c: "elapsed_minutes (last_update pip) (15 * minute) = 15"
    by (simp add: pip_def create_def minute_def fifteen_minutes)
  show ?thesis
    unfolding tick_within_float_range [OF a b] c
    by (simp add: pip_def create_def product_fifteen_minutes clamp_stat_simps)
qed

lemma tick_pip_seventeen:
  "tick (17 * minute) pip =
     (pip\<lparr>hunger := 0, happiness := 26, energy := 4, hygiene := 53,
        last_update := 17 * minute\<rparr>, Inr ())"
proof -
  have a: "last_update pip < 17 * minute" by (simp add: pip_def create_def minute_def)
  have b: "within_float_range pip (17 * minute)"
    by (simp add: pip_def create_def minute_def within_float_range_def)
  have c: "elapsed_minutes (last_update pip) (17 * minute) = 17"
    by (simp add: pip_def create_def minute_def seventeen_minutes)
  show ?thesis
    unfolding tick_within_float_range [OF a b] c
    by (simp add: pip_def create_def product_seventeen_minutes clamp_stat_simps)
qed

lemma starved_eq:
  "starved = pip\<lparr>hunger := 0, happiness := 26, energy := 4, hygiene := 53,
        last_update := 17 * minute\<rparr>"
  by (simp add: starved_def tick_pip_seventeen)

section \<open>The actions after the leading \<^verbatim>\<open>tick\<close>\<close>

lemma play_after_tick:
  assumes "tick now s = (s0, Inr ())"
  shows "play now s =
     (if energy s0 < 15
      then (s0, Inr (ascii ''Too tired to play right now. Maybe a nap first?''))
      else (s0\<lparr>happiness := clamp_stat (happiness s0 + 20),
                energy := clamp_stat (energy s0 - 15),
                hunger := clamp_stat (hunger s0 - 10),
                hygiene := clamp_stat (hygiene s0 - 5)\<rparr>,
            Inr (ascii ''That was fun! '' @
              mood_text (s0\<lparr>happiness := clamp_stat (happiness s0 + 20),
                energy := clamp_stat (energy s0 - 15),
                hunger := clamp_stat (hunger s0 - 10),
                hygiene := clamp_stat (hygiene s0 - 5)\<rparr>))))"
  by (simp add: play_def assms Let_def)

lemma feed_after_tick:
  assumes "tick now s = (s0, Inr ())"
  shows "feed now s =
     (s0\<lparr>hunger := clamp_stat (hunger s0 + 25), energy := clamp_stat (energy s0 + 5),
         hygiene := clamp_stat (hygiene s0 - 5)\<rparr>,
      Inr (ascii ''Yummy! '' @
        mood_text (s0\<lparr>hunger := clamp_stat (hunger s0 + 25),
          energy := clamp_stat (energy s0 + 5), hygiene := clamp_stat (hygiene s0 - 5)\<rparr>)))"
  by (simp add: feed_def assms Let_def)

lemma sleep_after_tick:
  assumes "tick now s = (s0, Inr ())"
  shows "sleep now s =
     (s0\<lparr>energy := clamp_stat (energy s0 + 25), hunger := clamp_stat (hunger s0 - 10)\<rparr>,
      Inr (ascii ''Zzz... Feeling rested now!''))"
  by (simp add: sleep_def assms Let_def)

lemma clean_after_tick:
  assumes "tick now s = (s0, Inr ())"
  shows "clean now s =
     (s0\<lparr>hygiene := clamp_stat (hygiene s0 + 30), happiness := clamp_stat (happiness s0 - 5)\<rparr>,
      Inr (ascii ''Splash splash! All squeaky clean.''))"
  by (simp add: clean_def assms Let_def)

lemma talk_after_tick:
  assumes "tick now s = (s0, Inr ())"
  shows "talk now s = (s0, Inr (mood_text s0))"
  by (simp add: talk_def assms)

lemma action_after_raise:
  assumes "tick now s = (s0, Inl e)"
  shows "feed now s = (s0, Inl e)" "play now s = (s0, Inl e)" "sleep now s = (s0, Inl e)"
    "clean now s = (s0, Inl e)" "talk now s = (s0, Inl e)" "status now s = (s0, Inl e)"
  by (simp_all add: feed_def play_def sleep_def clean_def talk_def status_def assms)

lemma ascii_eq_iff: "ascii a = ascii b \<longleftrightarrow> a = b"
proof -
  have "inj (of_char :: char \<Rightarrow> nat)" by (rule inj_on_inverseI [of _ char_of]) simp
  then show ?thesis by (simp add: ascii_def inj_map_eq_map)
qed

lemma ascii_append: "ascii a @ ascii b = ascii (a @ b)"
  by (simp add: ascii_def)

lemma needs_pip: "needs pip = []"
  by (simp add: needs_def moods_def pip_def create_def)

lemma is_alive_iff_pos:
  "is_alive s \<longleftrightarrow> 0 < hunger s \<and> 0 < happiness s \<and> 0 < energy s \<and> 0 < hygiene s"
  by (simp add: is_alive_def MIN_STAT_def)

lemma descriptors_distinct:
  "ascii ''hungry'' \<noteq> ascii ''bored''" "ascii ''hungry'' \<noteq> ascii ''sleepy''"
  "ascii ''hungry'' \<noteq> ascii ''dirty''" "ascii ''bored'' \<noteq> ascii ''sleepy''"
  "ascii ''bored'' \<noteq> ascii ''dirty''" "ascii ''sleepy'' \<noteq> ascii ''dirty''"
  by (simp_all add: ascii_eq_iff)

lemma needs_eq:
  "needs s =
     (if hunger s < 30 then [ascii ''hungry''] else []) @
     (if happiness s < 30 then [ascii ''bored''] else []) @
     (if energy s < 30 then [ascii ''sleepy''] else []) @
     (if hygiene s < 30 then [ascii ''dirty''] else [])"
  by (simp add: needs_def moods_def)

section \<open>The status display\<close>

lemma digits_range: "set (digits n) \<subseteq> {48..57}"
proof (induction n rule: digits.induct)
  case (1 n)
  show ?case
  proof (cases "n < 10")
    case True
    then show ?thesis by (subst digits.simps) simp
  next
    case False
    with 1 have "set (digits (n div 10)) \<subseteq> {48..57}" by simp
    moreover have "n mod 10 < 10" by simp
    ultimately show ?thesis using False by (subst digits.simps) auto
  qed
qed

lemma decimal_value_digits: "decimal_value (digits n) = n"
proof (induction n rule: digits.induct)
  case (1 n)
  show ?case
  proof (cases "n < 10")
    case True
    then show ?thesis by (subst digits.simps) (simp add: decimal_value_def)
  next
    case False
    with 1 have "decimal_value (digits (n div 10)) = n div 10" by simp
    then show ?thesis
      using False by (subst digits.simps) (simp add: decimal_value_def)
  qed
qed

lemma block_not_in_digits: "FULL_BLOCK \<notin> set (digits n)"
  using digits_range [of n] by (auto simp: FULL_BLOCK_def)

lemma block_not_in_ascii: "FULL_BLOCK \<notin> set (ascii a)"
proof
  assume "FULL_BLOCK \<in> set (ascii a)"
  then obtain c :: char where "FULL_BLOCK = of_char c" by (auto simp: ascii_def)
  moreover have "(of_char c :: nat) < 256"
  proof -
    have "(of_char c :: nat) = of_char c mod 256" by simp
    also have "\<dots> < 256" by (rule mod_less_divisor) simp
    finally show ?thesis .
  qed
  ultimately show False by (simp add: FULL_BLOCK_def)
qed

lemma count_rjust: "count_list (rjust w x) FULL_BLOCK = count_list x FULL_BLOCK"
  by (simp add: rjust_def FULL_BLOCK_def count_list_0_iff)

lemma count_format_3d: "count_list (format_3d v) FULL_BLOCK = 0"
  using block_not_in_digits
  by (simp add: format_3d_def count_rjust count_list_0_iff) (simp add: FULL_BLOCK_def)

lemma count_replicate_block: "count_list (replicate n FULL_BLOCK) FULL_BLOCK = n"
  by (induction n) simp_all

lemma count_stat_line:
  "FULL_BLOCK \<notin> set label \<Longrightarrow> count_list (stat_line (label, v)) FULL_BLOCK = nat (v div 5)"
  using block_not_in_ascii
  by (simp add: stat_line_def count_rjust count_format_3d count_replicate_block count_list_0_iff)

lemma status_after_tick: "tick now s = (s0, Inr ()) \<Longrightarrow> status now s = (s0, Inr (summary s0))"
  by (simp add: status_def)

lemma actions_status:
  "map_of actions (ascii ''status'') = Some (\<lambda>now s. (s, Inr (summary s)))"
  by (simp add: actions_def ascii_def)

lemma cli_command_status:
  "cli_command (ascii ''status'') t1 t2 s =
     (case status t1 s of (s0, Inl e) \<Rightarrow> (s0, Inl e) | (s0, Inr text) \<Rightarrow> (s0, Inr (Some text)))"
  by (simp add: cli_command_def status_def actions_status split: prod.splits sum.splits)

lemma digits_65: "digits 65 = ascii ''65''"
  by (simp add: digits.simps ascii_def)

lemma hunger_line:
  "stat_line (ascii ''Hunger'', 65) = ascii ''    Hunger:  65 % |'' @ replicate 13 FULL_BLOCK"
  by code_simp

section \<open>The loop of the text interface\<close>

lemma feed_starved:
  "feed (17 * minute) starved =
     (starved\<lparr>hunger := 25, energy := 9, hygiene := 48\<rparr>,
      Inr (ascii ''Yummy! '' @ mood_text (starved\<lparr>hunger := 25, energy := 9, hygiene := 48\<rparr>)))"
proof -
  have "tick (17 * minute) starved = (starved, Inr ())"
    by (rule tick_noop) (simp add: starved_eq)
  from feed_after_tick [OF this] show ?thesis
    by (simp add: starved_eq pip_fields clamp_stat_simps)
qed

lemma run_cli_loop_dead: "\<not> is_alive pet \<Longrightarrow> run_cli_loop pet events = (pet, Inr ())"
  by (cases events) auto

lemma actions_feed: "map_of actions (ascii ''feed'') = Some feed"
  by (simp add: actions_def ascii_def)

lemma run_cli_loop_feeds_pip:
  "run_cli_loop pip [(ascii ''feed'', 0, 0)] =
     (pip\<lparr>hunger := 90, energy := 60, hygiene := 65\<rparr>, Inl EOFError)"
proof -
  have t0: "tick 0 pip = (pip, Inr ())" by (rule tick_noop) (simp add: pip_fields)
  have f: "feed 0 pip = (pip\<lparr>hunger := 90, energy := 60, hygiene := 65\<rparr>,
      Inr (ascii ''Yummy! '' @ mood_text (pip\<lparr>hunger := 90, energy := 60, hygiene := 65\<rparr>)))"
    using feed_after_tick [OF t0] by (simp add: pip_fields clamp_stat_simps)
  have c: "cli_command (ascii ''feed'') 0 0 pip =
     (pip\<lparr>hunger := 90, energy := 60, hygiene := 65\<rparr>,
      Inr (Some (ascii ''Yummy! '' @ mood_text (pip\<lparr>hunger := 90, energy := 60, hygiene := 65\<rparr>))))"
    by (simp add: cli_command_def t0 actions_feed f)
  have n: "ascii ''feed'' \<noteq> []" "ascii ''feed'' \<noteq> ascii ''quit''" "ascii ''feed'' \<noteq> ascii ''ende''"
    by (simp_all add: ascii_def)
  show ?thesis
    using n by (simp add: c is_alive_iff_pos pip_fields)
qed

section \<open>Decay rates and the floor\<close>


lemma tick_keeps_rates:
  "hunger_decay (fst (tick now s)) = hunger_decay s \<and>
   happiness_decay (fst (tick now s)) = happiness_decay s \<and>
   energy_decay (fst (tick now s)) = energy_decay s \<and>
   hygiene_decay (fst (tick now s)) = hygiene_decay s"
  by (simp add: tick_def Let_def split: sum.splits)

lemma actions_keep_rates:
  "hunger_decay (fst (feed now s)) = hunger_decay s \<and>
   happiness_decay (fst (feed now s)) = happiness_decay s \<and>
   energy_decay (fst (feed now s)) = energy_decay s \<and>
   hygiene_decay (fst (feed now s)) = hygiene_decay s"
  "hunger_decay (fst (play now s)) = hunger_decay s \<and>
   happiness_decay (fst (play now s)) = happiness_decay s \<and>
   energy_decay (fst (play now s)) = energy_decay s \<and>
   hygiene_decay (fst (play now s)) = hygiene_decay s"
  "hunger_decay (fst (sleep now s)) = hunger_decay s \<and>
   happiness_decay (fst (sleep now s)) = happiness_decay s \<and>
   energy_decay (fst (sleep now s)) = energy_decay s \<and>
   hygiene_decay (fst (sleep now s)) = hygiene_decay s"
  "hunger_decay (fst (clean now s)) = hunger_decay s \<and>
   happiness_decay (fst (clean now s)) = happiness_decay s \<and>
   energy_decay (fst (clean now s)) = energy_decay s \<and>
   hygiene_decay (fst (clean now s)) = hygiene_decay s"
  using tick_keeps_rates [of now s]
  by (auto simp: feed_def play_def sleep_def clean_def Let_def split: prod.splits sum.splits)

lemma reachable_decay_rates:
  "reachable s \<Longrightarrow>
     hunger_decay s = 4 \<and> happiness_decay s = 2 \<and> energy_decay s = 3 \<and> hygiene_decay s = 1"
proof (induction rule: reachable.induct)
  case (created n t)
  show ?case by (simp add: create_def)
next
  case (ticked s now)
  then show ?case by (simp add: tick_keeps_rates)
next
  case (fed s now)
  then show ?case by (simp add: actions_keep_rates)
next
  case (played s now)
  then show ?case by (simp add: actions_keep_rates)
next
  case (slept s now)
  then show ?case by (simp add: actions_keep_rates)
next
  case (cleaned s now)
  then show ?case by (simp add: actions_keep_rates)
next
  case (talked s now)
  then show ?case by (simp add: talk_state tick_keeps_rates)
next
  case (queried s now)
  then show ?case by (simp add: status_state tick_keeps_rates)
qed

lemma reachable_rates_nonneg: "reachable s \<Longrightarrow> decay_rates_nonneg s"
  by (drule reachable_decay_rates) (simp add: decay_rates_nonneg_def)


section \<open>More worked examples\<close>

lemma tired_eq:
  "tired = pip\<lparr>hunger := 5, happiness := 30, energy := 10, hygiene := 55,
        last_update := 15 * minute\<rparr>"
  by (simp add: tired_def tick_pip_fifteen)

lemma tick_pip_now: "tick 0 pip = (pip, Inr ())"
  by (rule tick_noop) (simp add: pip_fields)

lemma fed_once_eq: "fed_once = pip\<lparr>hunger := 90, energy := 60, hygiene := 65\<rparr>"
  using feed_after_tick [OF tick_pip_now]
  by (simp add: fed_once_def pip_fields clamp_stat_simps)

lemma played_twice_eq:
  "played_twice = pip\<lparr>happiness := 100, energy := 25, hunger := 45, hygiene := 60\<rparr>"
proof -
  have 1: "fst (play 0 pip) = pip\<lparr>happiness := 80, energy := 40, hunger := 55, hygiene := 65\<rparr>"
    using play_after_tick [OF tick_pip_now] by (simp add: pip_fields clamp_stat_simps)
  have "tick 0 (pip\<lparr>happiness := 80, energy := 40, hunger := 55, hygiene := 65\<rparr>) =
      (pip\<lparr>happiness := 80, energy := 40, hunger := 55, hygiene := 65\<rparr>, Inr ())"
    by (rule tick_noop) (simp add: pip_fields)
  from play_after_tick [OF this] show ?thesis
    by (simp add: played_twice_def 1 pip_fields clamp_stat_simps)
qed

section \<open>The lines of the status display\<close>

lemma length_digits:
  "n < 10 \<Longrightarrow> length (digits n) = 1"
  "10 \<le> n \<Longrightarrow> n < 100 \<Longrightarrow> length (digits n) = 2"
  "100 \<le> n \<Longrightarrow> n < 1000 \<Longrightarrow> length (digits n) = 3"
proof -
  show 1: "length (digits n) = 1" if "n < 10" for n
    using that by (subst digits.simps) simp
  show 2: "length (digits n) = 2" if "10 \<le> n" "n < 100" for n
  proof -
    from that have "n div 10 < 10" by simp
    then have "length (digits (n div 10)) = 1" by (rule 1)
    then show ?thesis using that by (subst digits.simps) simp
  qed
  show "length (digits n) = 3" if "100 \<le> n" "n < 1000"
  proof -
    from that have "10 \<le> n div 10" "n div 10 < 100" by simp_all
    then have "length (digits (n div 10)) = 2" by (rule 2)
    then show ?thesis using that by (subst digits.simps) simp
  qed
qed

lemma length_digits_percent:
  assumes "0 \<le> v" and "v \<le> 100"
  shows "length (digits (nat v)) = (if v < 10 then 1 else if v < 100 then 2 else 3)"
  using assms length_digits [of "nat v"] by auto

lemma pip_lines:
  "stat_line (ascii ''Hunger'', 65) = ascii ''    Hunger:  65 % |'' @ replicate 13 FULL_BLOCK"
  "stat_line (ascii ''Happiness'', 60) = ascii '' Happiness:  60 % |'' @ replicate 12 FULL_BLOCK"
  "stat_line (ascii ''Energy'', 55) = ascii ''    Energy:  55 % |'' @ replicate 11 FULL_BLOCK"
  "stat_line (ascii ''Hygiene'', 70) = ascii ''   Hygiene:  70 % |'' @ replicate 14 FULL_BLOCK"
  by code_simp+

lemma extreme_lines:
  "stat_line (ascii ''Hunger'', 0) = ascii ''    Hunger:   0 % |''"
  "stat_line (ascii ''Hunger'', 100) = ascii ''    Hunger: 100 % |'' @ replicate 20 FULL_BLOCK"
  by code_simp+

section \<open>A stat at zero and the passage of time\<close>

lemma product_value_nonneg:
  assumes "0 \<le> m" and "0 \<le> r"
  shows "0 \<le> product_value m r"
proof -
  from assms(2) have "0 \<le> round_double (of_int r)" by (simp add: round_double_nonneg_iff)
  with assms(1) have "0 \<le> round_double (m * round_double (of_int r))"
    by (simp add: round_double_nonneg_iff)
  then show ?thesis by (simp add: product_value_floor [OF assms])
qed

lemma decay_of_zero:
  assumes "0 \<le> m" and "0 \<le> r" and "decay m v r = Inr w" and "v \<le> 0"
  shows "w \<le> 0"
proof -
  from decay_value [OF assms(3)] have "w = clamp_stat (v - product_value m r)" .
  with product_value_nonneg [OF assms(1,2)] assms(4) show ?thesis
    by (simp add: clamp_stat_simps)
qed

lemma tick_keeps_zero:
  assumes "decay_rates_nonneg s"
  shows "(hunger s \<le> 0 \<longrightarrow> hunger (fst (tick now s)) \<le> 0) \<and>
     (happiness s \<le> 0 \<longrightarrow> happiness (fst (tick now s)) \<le> 0) \<and>
     (energy s \<le> 0 \<longrightarrow> energy (fst (tick now s)) \<le> 0) \<and>
     (hygiene s \<le> 0 \<longrightarrow> hygiene (fst (tick now s)) \<le> 0)"
proof (cases "elapsed_minutes (last_update s) now \<le> 0")
  case True
  then show ?thesis by (simp add: tick_def)
next
  case False
  then have m: "0 \<le> elapsed_minutes (last_update s) now" by simp
  from assms have n: "0 \<le> hunger_decay s" "0 \<le> happiness_decay s"
    "0 \<le> energy_decay s" "0 \<le> hygiene_decay s"
    by (simp_all add: decay_rates_nonneg_def)
  show ?thesis
    using False
    by (auto simp: tick_def Let_def split: sum.splits
        dest: decay_of_zero [OF m n(1)] decay_of_zero [OF m n(2)]
          decay_of_zero [OF m n(3)] decay_of_zero [OF m n(4)])
qed

lemma tick_keeps_dead:
  assumes "decay_rates_nonneg s" and "\<not> is_alive s"
  shows "\<not> is_alive (fst (tick now s))"
  using tick_keeps_zero [OF assms(1), of now] assms(2)
  by (auto simp: is_alive_iff_pos)

lemma decay_nonneg: "decay m v r = Inr w \<Longrightarrow> 0 \<le> w"
  by (drule decay_range) simp

lemma tick_keeps_nonneg:
  "(0 \<le> hunger s \<longrightarrow> 0 \<le> hunger (fst (tick now s))) \<and>
   (0 \<le> happiness s \<longrightarrow> 0 \<le> happiness (fst (tick now s))) \<and>
   (0 \<le> energy s \<longrightarrow> 0 \<le> energy (fst (tick now s))) \<and>
   (0 \<le> hygiene s \<longrightarrow> 0 \<le> hygiene (fst (tick now s)))"
  by (simp add: tick_def Let_def decay_nonneg split: sum.splits)

lemma tick_zero_stays_zero:
  assumes "decay_rates_nonneg s"
  shows "(hunger s = 0 \<longrightarrow> hunger (fst (tick now s)) = 0) \<and>
     (happiness s = 0 \<longrightarrow> happiness (fst (tick now s)) = 0) \<and>
     (energy s = 0 \<longrightarrow> energy (fst (tick now s)) = 0) \<and>
     (hygiene s = 0 \<longrightarrow> hygiene (fst (tick now s)) = 0)"
proof -
  note z = tick_keeps_zero [OF assms, of now] and n = tick_keeps_nonneg [of s now]
  have "hunger s = 0 \<longrightarrow> hunger (fst (tick now s)) = 0" using z n by force
  moreover have "happiness s = 0 \<longrightarrow> happiness (fst (tick now s)) = 0" using z n by force
  moreover have "energy s = 0 \<longrightarrow> energy (fst (tick now s)) = 0" using z n by force
  moreover have "hygiene s = 0 \<longrightarrow> hygiene (fst (tick now s)) = 0" using z n by force
  ultimately show ?thesis by blast
qed

lemma three_minutes: "elapsed_minutes 0 180000000 = 3"
  by code_simp

lemma product_three_minutes:
  "product_value 3 4 = 12" "product_value 3 2 = 6"
  "product_value 3 3 = 9" "product_value 3 1 = 3"
  by code_simp+

lemma tick_starved:
  "tick (20 * minute) starved =
     (starved\<lparr>hunger := 0, happiness := 20, energy := 0, hygiene := 50,
        last_update := 20 * minute\<rparr>, Inr ())"
proof -
  have a: "last_update starved < 20 * minute" by (simp add: starved_eq minute_def)
  have b: "within_float_range starved (20 * minute)"
    by (simp add: starved_eq pip_fields minute_def within_float_range_def)
  have "elapsed_minutes (last_update starved) (20 * minute) = elapsed_minutes 0 180000000"
    by (simp add: starved_eq minute_def elapsed_minutes_def)
  then have c: "elapsed_minutes (last_update starved) (20 * minute) = 3"
    by (simp add: three_minutes)
  show ?thesis
    unfolding tick_within_float_range [OF a b] c
    by (simp add: starved_eq pip_fields product_three_minutes clamp_stat_simps)
qed

lemma reachable_starved: "reachable starved"
proof -
  have "reachable pip" unfolding pip_def by (rule reachable.created)
  then show ?thesis unfolding starved_def by (rule reachable.ticked)
qed

section \<open>How the loop of the text interface ends\<close>

lemma run_cli_loop_normal_end:
  "run_cli_loop pet events = (pet', Inr ()) \<Longrightarrow>
     \<not> is_alive pet' \<or>
     (\<exists>line \<in> set events. fst line = ascii ''quit'' \<or> fst line = ascii ''ende'')"
proof (induction pet events rule: run_cli_loop.induct)
  case (1 pet)
  then show ?case by (simp split: if_splits)
next
  case (2 pet command t1 t2 rest)
  obtain pet1 r where c: "cli_command command t1 t2 pet = (pet1, r)"
    by (cases "cli_command command t1 t2 pet")
  from 2(4) consider
      (dead) "\<not> is_alive pet" "pet' = pet"
    | (blank) "is_alive pet" "command = []" "run_cli_loop pet rest = (pet', Inr ())"
    | (unknown) "is_alive pet" "command \<noteq> []" "r = Inr None"
        "run_cli_loop pet1 rest = (pet', Inr ())"
    | (quit) "command \<in> {ascii ''quit'', ascii ''ende''}"
    | (other) response where "is_alive pet" "command \<noteq> []" "r = Inr (Some response)"
        "command \<notin> {ascii ''quit'', ascii ''ende''}" "run_cli_loop pet1 rest = (pet', Inr ())"
    using c by (auto split: if_splits sum.splits option.splits)
  then show ?case
  proof cases
    case dead
    then show ?thesis by simp
  next
    case blank
    with 2(1) show ?thesis by auto
  next
    case unknown
    with 2(2) [of pet1 r None] c show ?thesis by auto
  next
    case quit
    then show ?thesis by auto
  next
    case other
    with 2(3) [of pet1 r "Some response" response] c show ?thesis by auto
  qed
qed

text \<open>
  Within a round the loop does not test \<open>is_alive\<close> again: a pet that the round's own
  \<open>tick\<close> brings to hunger 0 is still fed, and the loop goes on with it.
\<close>

lemma run_cli_loop_feeds_after_tick:
  "run_cli_loop pip [(ascii ''feed'', 17 * minute, 17 * minute)] =
     (starved\<lparr>hunger := 25, energy := 9, hygiene := 48\<rparr>, Inl EOFError)"
proof -
  have t: "tick (17 * minute) pip = (starved, Inr ())"
    by (simp add: tick_pip_seventeen starved_eq)
  have c: "cli_command (ascii ''feed'') (17 * minute) (17 * minute) pip =
     (starved\<lparr>hunger := 25, energy := 9, hygiene := 48\<rparr>,
      Inr (Some (ascii ''Yummy! '' @
        mood_text (starved\<lparr>hunger := 25, energy := 9, hygiene := 48\<rparr>))))"
    by (simp add: cli_command_def t actions_feed feed_starved)
  have n: "ascii ''feed'' \<noteq> []" "ascii ''feed'' \<noteq> ascii ''quit''" "ascii ''feed'' \<noteq> ascii ''ende''"
    by (simp_all add: ascii_def)
  have a: "is_alive pip" "is_alive (starved\<lparr>hunger := 25, energy := 9, hygiene := 48\<rparr>)"
    by (simp_all add: is_alive_iff_pos pip_fields starved_eq)
  show ?thesis using n a by (simp add: c)
qed

section \<open>The claims\<close>

text \<open>
  C1. Every state reached from a freshly constructed pet has its four stats in the closed
  range from 0 to 100, and so has the state left by each operation (tick, feed, play, sleep,
  clean, talk, status) run from it at any clock reading, whether the operation returns or
  raises.
\<close>

theorem clamp_invariant:
  assumes "reachable s"
  shows "stats_in_range s \<and>
     stats_in_range (fst (tick now s)) \<and> stats_in_range (fst (feed now s)) \<and>
     stats_in_range (fst (play now s)) \<and> stats_in_range (fst (sleep now s)) \<and>
     stats_in_range (fst (clean now s)) \<and> stats_in_range (fst (talk now s)) \<and>
     stats_in_range (fst (status now s))"
proof -
  from assms have "stats_in_range s" by (rule reachable_in_range)
  then show ?thesis
    by (simp add: tick_in_range feed_in_range play_in_range sleep_in_range clean_in_range
        talk_state status_state)
qed

theorem clamp_invariant_witness:
  "reachable pip \<and> stats_in_range pip \<and>
   stats_in_range (fst (tick (10 * minute) pip)) \<and> stats_in_range (fst (feed (10 * minute) pip)) \<and>
   stats_in_range (fst (play (10 * minute) pip)) \<and> stats_in_range (fst (sleep (10 * minute) pip)) \<and>
   stats_in_range (fst (clean (10 * minute) pip)) \<and> stats_in_range (fst (talk (10 * minute) pip)) \<and>
   stats_in_range (fst (status (10 * minute) pip))"
proof -
  have r: "reachable pip" unfolding pip_def by (rule reachable.created)
  from clamp_invariant [OF r, of "10 * minute"] r show ?thesis by simp
qed

text \<open>
  C4. When \<open>now\<close> is earlier than or equal to \<open>last_update\<close>, which is exactly when the
  elapsed minutes are zero or negative, \<open>tick\<close> returns and leaves the whole object,
  stats and \<open>last_update\<close> included, as it was.
\<close>

theorem tick_without_elapsed_time:
  "(elapsed_minutes (last_update s) now \<le> 0 \<longleftrightarrow> now \<le> last_update s) \<and>
   (now \<le> last_update s \<longrightarrow> tick now s = (s, Inr ()))"
  by (simp add: elapsed_minutes_le_0_iff tick_noop)

theorem tick_without_elapsed_time_witness:
  "- 5 \<le> last_update pip \<and> elapsed_minutes (last_update pip) (- 5) \<le> 0 \<and>
   tick (- 5) pip = (pip, Inr ()) \<and> tick (last_update pip) pip = (pip, Inr ())"
  using tick_without_elapsed_time [of pip "- 5"] tick_without_elapsed_time [of pip "last_update pip"]
  by (simp add: pip_def create_def)



text \<open>
  C3. After the leading \<open>tick\<close> has returned: if energy is strictly below 15, \<open>play\<close>
  returns the refusal message and leaves the object exactly as \<open>tick\<close> left it; if energy
  is 15 or more, it sets happiness +20, energy -15, hunger -10, hygiene -5, each clamped,
  and returns the fun prefix followed by the mood text of the new state. The refusal
  message is never of the form of the fun message. When \<open>tick\<close> raises, \<open>play\<close> raises the
  same exception.
\<close>

theorem play_threshold:
  "(snd (tick now s) = Inr () \<and> energy (fst (tick now s)) < 15 \<longrightarrow>
      play now s =
        (fst (tick now s), Inr (ascii ''Too tired to play right now. Maybe a nap first?''))) \<and>
   (snd (tick now s) = Inr () \<and> 15 \<le> energy (fst (tick now s)) \<longrightarrow>
      fst (play now s) =
        (fst (tick now s))
          \<lparr>happiness := max 0 (min 100 (happiness (fst (tick now s)) + 20)),
           energy := max 0 (min 100 (energy (fst (tick now s)) - 15)),
           hunger := max 0 (min 100 (hunger (fst (tick now s)) - 10)),
           hygiene := max 0 (min 100 (hygiene (fst (tick now s)) - 5))\<rparr> \<and>
      snd (play now s) = Inr (ascii ''That was fun! '' @ mood_text (fst (play now s)))) \<and>
   (\<forall>e. snd (tick now s) = Inl e \<longrightarrow> play now s = (fst (tick now s), Inl e)) \<and>
   ascii ''Too tired to play right now. Maybe a nap first?'' \<noteq> ascii ''That was fun! '' @ m"
proof -
  obtain s0 r where t: "tick now s = (s0, r)" by (cases "tick now s")
  have msg: "ascii ''Too tired to play right now. Maybe a nap first?'' \<noteq> ascii ''That was fun! '' @ m"
    by (simp add: ascii_def)
  show ?thesis
  proof (cases r)
    case (Inl e)
    with t msg show ?thesis by (simp add: action_after_raise)
  next
    case (Inr u)
    with t have "tick now s = (s0, Inr ())" by simp
    from play_after_tick [OF this] t Inr msg show ?thesis
      by (simp add: clamp_stat_def clamp_def MIN_STAT_def MAX_STAT_def)
  qed
qed

theorem play_threshold_witness:
  "snd (tick (15 * minute) pip) = Inr () \<and> energy (fst (tick (15 * minute) pip)) = 10 \<and>
   play (15 * minute) pip =
     (fst (tick (15 * minute) pip), Inr (ascii ''Too tired to play right now. Maybe a nap first?'')) \<and>
   snd (tick 0 pip) = Inr () \<and> energy (fst (tick 0 pip)) = 55 \<and>
   fst (play 0 pip) = pip\<lparr>happiness := 80, energy := 40, hunger := 55, hygiene := 65\<rparr> \<and>
   snd (play 0 pip) = Inr (ascii ''That was fun! '' @ ascii ''Pip'' @ ascii '' is feeling great!'') \<and>
   snd (tick 0 played_twice) = Inr () \<and> energy (fst (tick 0 played_twice)) = 25 \<and>
   happiness (fst (tick 0 played_twice)) = 100 \<and>
   fst (play 0 played_twice) =
     pip\<lparr>happiness := 100, energy := 10, hunger := 35, hygiene := 55\<rparr>"
proof -
  have t0: "tick 0 pip = (pip, Inr ())" by (rule tick_pip_now)
  have a: "snd (tick (15 * minute) pip) = Inr () \<and> energy (fst (tick (15 * minute) pip)) = 10"
    by (simp add: tick_pip_fifteen)
  with play_threshold [of "15 * minute" pip]
  have b: "play (15 * minute) pip =
     (fst (tick (15 * minute) pip), Inr (ascii ''Too tired to play right now. Maybe a nap first?''))"
    by simp
  have c: "snd (tick 0 pip) = Inr () \<and> energy (fst (tick 0 pip)) = 55"
    by (simp add: t0 pip_fields)
  with play_threshold [of 0 pip]
  have d: "fst (play 0 pip) =
        (fst (tick 0 pip))
          \<lparr>happiness := max 0 (min 100 (happiness (fst (tick 0 pip)) + 20)),
           energy := max 0 (min 100 (energy (fst (tick 0 pip)) - 15)),
           hunger := max 0 (min 100 (hunger (fst (tick 0 pip)) - 10)),
           hygiene := max 0 (min 100 (hygiene (fst (tick 0 pip)) - 5))\<rparr> \<and>
      snd (play 0 pip) = Inr (ascii ''That was fun! '' @ mood_text (fst (play 0 pip)))"
    by simp
  then have e: "fst (play 0 pip) = pip\<lparr>happiness := 80, energy := 40, hunger := 55, hygiene := 65\<rparr>"
    by (simp add: t0 pip_fields)
  have "mood_text (pip\<lparr>happiness := 80, energy := 40, hunger := 55, hygiene := 65\<rparr>) =
      ascii ''Pip'' @ ascii '' is feeling great!''"
    by (simp add: mood_text_def needs_def moods_def pip_fields)
  with d e have f: "snd (play 0 pip) = Inr (ascii ''That was fun! '' @ ascii ''Pip'' @ ascii '' is feeling great!'')"
    by simp
  have t2: "tick 0 played_twice = (played_twice, Inr ())"
    by (rule tick_noop) (simp add: played_twice_eq pip_fields)
  have g: "snd (tick 0 played_twice) = Inr () \<and> energy (fst (tick 0 played_twice)) = 25 \<and>
      happiness (fst (tick 0 played_twice)) = 100"
    by (simp add: t2) (simp add: played_twice_eq)
  with play_threshold [of 0 played_twice]
  have "fst (play 0 played_twice) =
        (fst (tick 0 played_twice))
          \<lparr>happiness := max 0 (min 100 (happiness (fst (tick 0 played_twice)) + 20)),
           energy := max 0 (min 100 (energy (fst (tick 0 played_twice)) - 15)),
           hunger := max 0 (min 100 (hunger (fst (tick 0 played_twice)) - 10)),
           hygiene := max 0 (min 100 (hygiene (fst (tick 0 played_twice)) - 5))\<rparr>"
    by simp
  then have h: "fst (play 0 played_twice) =
     pip\<lparr>happiness := 100, energy := 10, hunger := 35, hygiene := 55\<rparr>"
    by (simp add: t2) (simp add: played_twice_eq)
  from a b c e f g h show ?thesis by simp
qed

text \<open>
  C5. After the leading \<open>tick\<close> has returned with state \<open>s0\<close>: \<open>feed\<close> sets hunger +25,
  energy +5, hygiene -5, each brought into the range from 0 to 100, and returns the fed
  prefix followed by the mood text; \<open>sleep\<close> sets energy +25, hunger -10 and returns the
  fixed rested message; \<open>clean\<close> sets hygiene +30, happiness -5 and returns the fixed clean
  message; \<open>talk\<close> changes nothing and returns the mood text. Every other field is the one
  \<open>tick\<close> left. Fed at hunger 90 the pet has hunger 100, not 115.
\<close>

theorem unconditional_actions:
  assumes "tick now s = (s0, Inr ())"
  shows "fst (feed now s) =
       s0\<lparr>hunger := max 0 (min 100 (hunger s0 + 25)), energy := max 0 (min 100 (energy s0 + 5)),
          hygiene := max 0 (min 100 (hygiene s0 - 5))\<rparr> \<and>
     snd (feed now s) = Inr (ascii ''Yummy! '' @ mood_text (fst (feed now s))) \<and>
     sleep now s =
       (s0\<lparr>energy := max 0 (min 100 (energy s0 + 25)),
           hunger := max 0 (min 100 (hunger s0 - 10))\<rparr>,
        Inr (ascii ''Zzz... Feeling rested now!'')) \<and>
     clean now s =
       (s0\<lparr>hygiene := max 0 (min 100 (hygiene s0 + 30)),
           happiness := max 0 (min 100 (happiness s0 - 5))\<rparr>,
        Inr (ascii ''Splash splash! All squeaky clean.'')) \<and>
     talk now s = (s0, Inr (mood_text s0))"
  by (simp add: feed_after_tick [OF assms] sleep_after_tick [OF assms]
      clean_after_tick [OF assms] talk_after_tick [OF assms]
      clamp_stat_def clamp_def MIN_STAT_def MAX_STAT_def)

theorem unconditional_actions_witness:
  "tick 0 fed_once = (fed_once, Inr ()) \<and> hunger fed_once = 90 \<and>
   feed 0 fed_once =
     (pip\<lparr>hunger := 100, energy := 65, hygiene := 60\<rparr>,
      Inr (ascii ''Yummy! '' @ ascii ''Pip'' @ ascii '' is feeling great!'')) \<and>
   tick (15 * minute) tired = (tired, Inr ()) \<and> hunger tired = 5 \<and>
   sleep (15 * minute) tired =
     (tired\<lparr>energy := 35, hunger := 0\<rparr>, Inr (ascii ''Zzz... Feeling rested now!'')) \<and>
   tick 0 peckish = (peckish, Inr ()) \<and> hygiene peckish = 80 \<and>
   clean 0 peckish =
     (peckish\<lparr>hygiene := 100, happiness := 75\<rparr>, Inr (ascii ''Splash splash! All squeaky clean.'')) \<and>
   tick 0 pip = (pip, Inr ()) \<and>
   talk 0 pip = (pip, Inr (ascii ''Pip'' @ ascii '' is feeling great!''))"
proof -
  have t1: "tick 0 fed_once = (fed_once, Inr ())"
    by (rule tick_noop) (simp add: fed_once_eq pip_fields)
  have t2: "tick (15 * minute) tired = (tired, Inr ())"
    by (rule tick_noop) (simp add: tired_eq)
  have t3: "tick 0 peckish = (peckish, Inr ())"
    by (rule tick_noop) (simp add: peckish_def create_def)
  have t4: "tick 0 pip = (pip, Inr ())" by (rule tick_pip_now)
  have f1: "fst (feed 0 fed_once) = pip\<lparr>hunger := 100, energy := 65, hygiene := 60\<rparr>"
    using unconditional_actions [OF t1] by (simp add: fed_once_eq pip_fields)
  have m: "mood_text (pip\<lparr>hunger := 100, energy := 65, hygiene := 60\<rparr>) =
      ascii ''Pip'' @ ascii '' is feeling great!''"
    "mood_text pip = ascii ''Pip'' @ ascii '' is feeling great!''"
    by (simp_all add: mood_text_def needs_def moods_def pip_fields)
  from unconditional_actions [OF t1]
  have "snd (feed 0 fed_once) = Inr (ascii ''Yummy! '' @ mood_text (fst (feed 0 fed_once)))"
    by simp
  with f1 m have a: "feed 0 fed_once =
     (pip\<lparr>hunger := 100, energy := 65, hygiene := 60\<rparr>,
      Inr (ascii ''Yummy! '' @ ascii ''Pip'' @ ascii '' is feeling great!''))"
    by (simp add: prod_eq_iff)
  have b: "sleep (15 * minute) tired =
     (tired\<lparr>energy := 35, hunger := 0\<rparr>, Inr (ascii ''Zzz... Feeling rested now!''))"
    using unconditional_actions [OF t2] by (simp add: tired_eq pip_fields)
  have c: "clean 0 peckish =
     (peckish\<lparr>hygiene := 100, happiness := 75\<rparr>, Inr (ascii ''Splash splash! All squeaky clean.''))"
    using unconditional_actions [OF t3] by (simp add: peckish_def create_def)
  have d: "talk 0 pip = (pip, Inr (ascii ''Pip'' @ ascii '' is feeling great!''))"
    using unconditional_actions [OF t4] m by simp
  have e: "hunger fed_once = 90" "hunger tired = 5" "hygiene peckish = 80"
    by (simp_all add: fed_once_eq tired_eq peckish_def create_def)
  from t1 t2 t3 t4 a b c d e show ?thesis by simp
qed

text \<open>
  C10. When \<open>play\<close> refuses, the object is exactly the one the leading \<open>tick\<close> left: for
  \<open>last_update s < now\<close> all four stats carry the decay and \<open>last_update\<close> is \<open>now\<close>. The
  state before the call is not restored.
\<close>

theorem play_refusal_keeps_decay:
  assumes "snd (tick now s) = Inr ()" and "energy (fst (tick now s)) < 15"
  shows "fst (play now s) = fst (tick now s) \<and>
     (last_update s < now \<longrightarrow>
        fst (play now s) =
          s\<lparr>hunger := clamp_stat (hunger s -
                      product_value (elapsed_minutes (last_update s) now) (hunger_decay s)),
            happiness := clamp_stat (happiness s -
                      product_value (elapsed_minutes (last_update s) now) (happiness_decay s)),
            energy := clamp_stat (energy s -
                      product_value (elapsed_minutes (last_update s) now) (energy_decay s)),
            hygiene := clamp_stat (hygiene s -
                      product_value (elapsed_minutes (last_update s) now) (hygiene_decay s)),
            last_update := now\<rparr>)"
proof -
  from assms(1) have t: "tick now s = (fst (tick now s), Inr ())" by (simp add: prod_eq_iff)
  from play_after_tick [OF t] assms(2) have p: "fst (play now s) = fst (tick now s)" by simp
  show ?thesis using p tick_advances [OF _ assms(1)] by simp
qed

theorem play_refusal_keeps_decay_witness:
  "snd (tick (15 * minute) pip) = Inr () \<and> energy (fst (tick (15 * minute) pip)) < 15 \<and>
   last_update pip < 15 * minute \<and>
   fst (play (15 * minute) pip) =
     pip\<lparr>hunger := 5, happiness := 30, energy := 10, hygiene := 55, last_update := 15 * minute\<rparr> \<and>
   fst (play (15 * minute) pip) \<noteq> pip"
proof -
  have a: "snd (tick (15 * minute) pip) = Inr ()" by (simp add: tick_pip_fifteen)
  have b: "energy (fst (tick (15 * minute) pip)) < 15" by (simp add: tick_pip_fifteen)
  have c: "last_update pip < 15 * minute" by (simp add: pip_fields minute_def)
  from play_refusal_keeps_decay [OF a b]
  have d: "fst (play (15 * minute) pip) =
     pip\<lparr>hunger := 5, happiness := 30, energy := 10, hygiene := 55, last_update := 15 * minute\<rparr>"
    by (simp add: tick_pip_fifteen)
  then have "hunger (fst (play (15 * minute) pip)) \<noteq> hunger pip"
    by (simp add: pip_fields)
  then have e: "fst (play (15 * minute) pip) \<noteq> pip" by auto
  from a b c d e show ?thesis by simp
qed

text \<open>
  C6. \<open>is_alive\<close> holds exactly when all four stats are strictly positive. On a state
  whose stats are in range it fails exactly when some stat equals 0 and holds exactly when
  all four are at least 1. It is a function of the state and returns no state.
\<close>

theorem is_alive_characterised:
  "(is_alive s \<longleftrightarrow> 0 < hunger s \<and> 0 < happiness s \<and> 0 < energy s \<and> 0 < hygiene s) \<and>
   (stats_in_range s \<longrightarrow>
      (\<not> is_alive s \<longleftrightarrow> hunger s = 0 \<or> happiness s = 0 \<or> energy s = 0 \<or> hygiene s = 0) \<and>
      (is_alive s \<longleftrightarrow> 1 \<le> hunger s \<and> 1 \<le> happiness s \<and> 1 \<le> energy s \<and> 1 \<le> hygiene s))"
  by (auto simp: is_alive_iff_pos stats_in_range_iff)

theorem is_alive_characterised_witness:
  "stats_in_range starved \<and> hunger starved = 0 \<and> \<not> is_alive starved \<and>
   stats_in_range pip \<and> is_alive pip"
proof -
  have a: "stats_in_range starved" "hunger starved = 0"
    by (simp_all add: starved_eq stats_in_range_iff pip_fields)
  have b: "stats_in_range pip" "0 < hunger pip \<and> 0 < happiness pip \<and> 0 < energy pip \<and> 0 < hygiene pip"
    by (simp_all add: stats_in_range_iff pip_fields)
  from is_alive_characterised [of starved] is_alive_characterised [of pip] a b
  show ?thesis by simp
qed

text \<open>
  C7. A descriptor is among the needs exactly when its stat is strictly below 30: hunger
  gives hungry, happiness bored, energy sleepy, hygiene dirty. The needs keep the order
  hunger, happiness, energy, hygiene. When there is a need, the mood text is the name,
  the words feels a bit, the needs joined by and, and a full stop; when there is none it is
  the feeling great sentence.
\<close>

theorem mood_text_lists_needs:
  "(ascii ''hungry'' \<in> set (needs s) \<longleftrightarrow> hunger s < 30) \<and>
   (ascii ''bored'' \<in> set (needs s) \<longleftrightarrow> happiness s < 30) \<and>
   (ascii ''sleepy'' \<in> set (needs s) \<longleftrightarrow> energy s < 30) \<and>
   (ascii ''dirty'' \<in> set (needs s) \<longleftrightarrow> hygiene s < 30) \<and>
   subseq (needs s) [ascii ''hungry'', ascii ''bored'', ascii ''sleepy'', ascii ''dirty''] \<and>
   (needs s = [] \<longleftrightarrow> 30 \<le> hunger s \<and> 30 \<le> happiness s \<and> 30 \<le> energy s \<and> 30 \<le> hygiene s) \<and>
   (needs s \<noteq> [] \<longrightarrow>
      mood_text s = name s @ ascii '' feels a bit '' @ join (ascii '' and '') (needs s) @ ascii ''.'') \<and>
   (needs s = [] \<longrightarrow> mood_text s = name s @ ascii '' is feeling great!'')"
proof -
  have 1: "ascii ''hungry'' \<in> set (needs s) \<longleftrightarrow> hunger s < 30"
    using descriptors_distinct by (simp add: needs_eq)
  have 2: "ascii ''bored'' \<in> set (needs s) \<longleftrightarrow> happiness s < 30"
    using descriptors_distinct by (auto simp: needs_eq)
  have 3: "ascii ''sleepy'' \<in> set (needs s) \<longleftrightarrow> energy s < 30"
    using descriptors_distinct by (auto simp: needs_eq)
  have 4: "ascii ''dirty'' \<in> set (needs s) \<longleftrightarrow> hygiene s < 30"
    using descriptors_distinct by (auto simp: needs_eq)
  have 5: "subseq (needs s) [ascii ''hungry'', ascii ''bored'', ascii ''sleepy'', ascii ''dirty'']"
  proof -
    have "subseq (filter (\<lambda>(v, n). v < 30) (moods s)) (moods s)" by simp
    then have "subseq (needs s) (map snd (moods s))"
      unfolding needs_def by (rule subseq_map)
    then show ?thesis by (simp add: moods_def)
  qed
  have 6: "needs s = [] \<longleftrightarrow> 30 \<le> hunger s \<and> 30 \<le> happiness s \<and> 30 \<le> energy s \<and> 30 \<le> hygiene s"
    by (auto simp: needs_eq)
  from 1 2 3 4 5 6 show ?thesis by (simp add: mood_text_def)
qed

theorem mood_text_lists_needs_witness:
  "hunger peckish < 30 \<and> \<not> happiness peckish < 30 \<and> energy peckish < 30 \<and> \<not> hygiene peckish < 30 \<and>
   needs peckish = [ascii ''hungry'', ascii ''sleepy''] \<and>
   ascii ''bored'' \<notin> set (needs peckish) \<and> ascii ''dirty'' \<notin> set (needs peckish) \<and>
   mood_text peckish =
     ascii ''Pip'' @ ascii '' feels a bit '' @ ascii ''hungry'' @ ascii '' and '' @ ascii ''sleepy''
       @ ascii ''.'' \<and>
   needs pip = [] \<and> mood_text pip = ascii ''Pip'' @ ascii '' is feeling great!''"
proof -
  have f: "hunger peckish = 10" "happiness peckish = 80" "energy peckish = 10"
    "hygiene peckish = 80" "name peckish = ascii ''Pip''"
    by (simp_all add: peckish_def create_def)
  have n: "needs peckish = [ascii ''hungry'', ascii ''sleepy'']"
    by (simp add: needs_eq f)
  have p: "needs pip = []" by (simp add: needs_eq pip_fields)
  from mood_text_lists_needs [of peckish] mood_text_lists_needs [of pip] n p f
  show ?thesis by (simp add: pip_fields)
qed

text \<open>
  C8, the claim as stated fails: no core operation tests \<open>is_alive\<close>. The pet after
  seventeen minutes has hunger 0; \<open>feed\<close> then changes three stats and the pet is alive
  again, and a later \<open>tick\<close> goes on decaying the other stats.
\<close>

theorem game_over_counterexample:
  "reachable starved \<and> hunger starved = 0 \<and> \<not> is_alive starved \<and>
   stats starved = [0, 26, 4, 53] \<and>
   snd (feed (17 * minute) starved) \<noteq> Inl OverflowError \<and>
   stats (fst (feed (17 * minute) starved)) = [25, 26, 9, 48] \<and>
   is_alive (fst (feed (17 * minute) starved)) \<and>
   stats (fst (tick (20 * minute) starved)) = [0, 20, 0, 50]"
  using reachable_starved
  by (simp add: feed_starved tick_starved is_alive_iff_pos stats_def)
    (simp add: starved_eq pip_fields)

text \<open>
  C8 as amended. The text interface's loop, when it tests a pet that is not alive, ends
  without running any operation and returns the pet as it is, whatever lines are still to
  be read; and when the loop ends without an exception, either the pet is not alive or a
  line read was quit or ende. With decay rates that are not negative, as those of every
  reachable pet are, a stat that is 0 is still 0 after \<open>tick\<close> at any clock reading, and a
  pet that is not alive is still not alive after \<open>tick\<close>, \<open>talk\<close> and \<open>status\<close>.
  \<open>is_alive\<close>, \<open>summary\<close> and \<open>mood_text\<close> are total functions of the state.
\<close>

theorem game_over_where_terminal:
  "(\<not> is_alive s \<longrightarrow> run_cli_loop s events = (s, Inr ())) \<and>
   (run_cli_loop s events = (s', Inr ()) \<longrightarrow>
      \<not> is_alive s' \<or>
      (\<exists>line \<in> set events. fst line = ascii ''quit'' \<or> fst line = ascii ''ende'')) \<and>
   (decay_rates_nonneg s \<longrightarrow>
      (hunger s = 0 \<longrightarrow> hunger (fst (tick now s)) = 0) \<and>
      (happiness s = 0 \<longrightarrow> happiness (fst (tick now s)) = 0) \<and>
      (energy s = 0 \<longrightarrow> energy (fst (tick now s)) = 0) \<and>
      (hygiene s = 0 \<longrightarrow> hygiene (fst (tick now s)) = 0) \<and>
      (\<not> is_alive s \<longrightarrow>
         \<not> is_alive (fst (tick now s)) \<and> \<not> is_alive (fst (talk now s)) \<and>
         \<not> is_alive (fst (status now s)))) \<and>
   (reachable s \<longrightarrow> decay_rates_nonneg s)"
proof -
  have 1: "\<not> is_alive s \<longrightarrow> run_cli_loop s events = (s, Inr ())"
    by (simp add: run_cli_loop_dead)
  have 2: "run_cli_loop s events = (s', Inr ()) \<longrightarrow>
      \<not> is_alive s' \<or>
      (\<exists>line \<in> set events. fst line = ascii ''quit'' \<or> fst line = ascii ''ende'')"
    using run_cli_loop_normal_end [of s events s'] by blast
  have 3: "decay_rates_nonneg s \<longrightarrow>
      (hunger s = 0 \<longrightarrow> hunger (fst (tick now s)) = 0) \<and>
      (happiness s = 0 \<longrightarrow> happiness (fst (tick now s)) = 0) \<and>
      (energy s = 0 \<longrightarrow> energy (fst (tick now s)) = 0) \<and>
      (hygiene s = 0 \<longrightarrow> hygiene (fst (tick now s)) = 0)"
    using tick_zero_stays_zero [of s now] by blast
  have 4: "decay_rates_nonneg s \<longrightarrow> \<not> is_alive s \<longrightarrow>
         \<not> is_alive (fst (tick now s)) \<and> \<not> is_alive (fst (talk now s)) \<and>
         \<not> is_alive (fst (status now s))"
    by (simp add: talk_state status_state tick_keeps_dead)
  have 5: "reachable s \<longrightarrow> decay_rates_nonneg s"
    by (simp add: reachable_rates_nonneg)
  from 1 2 3 4 5 show ?thesis by blast
qed

theorem game_over_where_terminal_witness:
  "\<not> is_alive starved \<and> reachable starved \<and> decay_rates_nonneg starved \<and>
   hunger starved = 0 \<and>
   run_cli_loop starved [(ascii ''feed'', 18 * minute, 18 * minute)] = (starved, Inr ()) \<and>
   hunger (fst (tick (20 * minute) starved)) = 0 \<and>
   \<not> is_alive (fst (tick (20 * minute) starved)) \<and>
   \<not> is_alive (fst (talk (20 * minute) starved)) \<and>
   \<not> is_alive (fst (status (20 * minute) starved))"
proof -
  have d: "\<not> is_alive starved" "hunger starved = 0"
    by (simp_all add: is_alive_iff_pos starved_eq)
  note g = game_over_where_terminal
    [of starved "[(ascii ''feed'', 18 * minute, 18 * minute)]" starved "20 * minute"]
  from g reachable_starved have n: "decay_rates_nonneg starved" by blast
  from g d have l: "run_cli_loop starved [(ascii ''feed'', 18 * minute, 18 * minute)] =
      (starved, Inr ())"
    by blast
  from g n d have "hunger (fst (tick (20 * minute) starved)) = 0 \<and>
      \<not> is_alive (fst (tick (20 * minute) starved)) \<and>
      \<not> is_alive (fst (talk (20 * minute) starved)) \<and>
      \<not> is_alive (fst (status (20 * minute) starved))"
    by blast
  with d reachable_starved n l show ?thesis by blast
qed

text \<open>
  C9. The status query leaves the object as the leading \<open>tick\<close> left it and returns the
  summary of that object. The summary is the four lines for hunger, happiness, energy and
  hygiene, in this order, with a newline between two lines; a line is the label padded
  with spaces on the left to width 10, a colon and a space, the value, a space, a percent
  sign, a space, a bar sign, and the glyphs; the glyph occurs exactly \<open>value div 5\<close> times
  in a line, which for a value from 0 to 100 is at most 20; such a value is written with
  its one to three decimal digits, padded with spaces on the left to width 3. \<open>summary\<close> is
  a function of the state and returns no state.
\<close>

theorem status_display:
  "fst (status now s) = fst (tick now s) \<and>
   (snd (tick now s) = Inr () \<longrightarrow> snd (status now s) = Inr (summary (fst (tick now s)))) \<and>
   summary s =
     stat_line (ascii ''Hunger'', hunger s) @ [10] @
     stat_line (ascii ''Happiness'', happiness s) @ [10] @
     stat_line (ascii ''Energy'', energy s) @ [10] @
     stat_line (ascii ''Hygiene'', hygiene s) \<and>
   stat_line (label, v) =
     replicate (10 - length label) 32 @ label @ ascii '': '' @ format_3d v @ ascii '' % |''
       @ replicate (nat (v div 5)) FULL_BLOCK \<and>
   (FULL_BLOCK \<notin> set label \<longrightarrow> count_list (stat_line (label, v)) FULL_BLOCK = nat (v div 5)) \<and>
   (0 \<le> v \<and> v \<le> 100 \<longrightarrow>
      format_3d v = replicate (3 - length (digits (nat v))) 32 @ digits (nat v) \<and>
      length (digits (nat v)) = (if v < 10 then 1 else if v < 100 then 2 else 3) \<and>
      set (digits (nat v)) \<subseteq> {48..57} \<and> decimal_value (digits (nat v)) = nat v \<and>
      int (nat (v div 5)) = v div 5 \<and> nat (v div 5) \<le> 20)"
proof -
  have 1: "snd (tick now s) = Inr () \<longrightarrow> snd (status now s) = Inr (summary (fst (tick now s)))"
  proof
    assume "snd (tick now s) = Inr ()"
    then have "tick now s = (fst (tick now s), Inr ())" by (simp add: prod_eq_iff)
    from status_after_tick [OF this] show "snd (status now s) = Inr (summary (fst (tick now s)))"
      by simp
  qed
  have 2: "0 \<le> v \<and> v \<le> 100 \<longrightarrow> int (nat (v div 5)) = v div 5 \<and> nat (v div 5) \<le> 20"
    by auto
  have 3: "0 \<le> v \<and> v \<le> 100 \<longrightarrow>
      format_3d v = replicate (3 - length (digits (nat v))) 32 @ digits (nat v)"
    by (simp add: format_3d_def rjust_def)
  have 4: "0 \<le> v \<and> v \<le> 100 \<longrightarrow>
      length (digits (nat v)) = (if v < 10 then 1 else if v < 100 then 2 else 3)"
    using length_digits_percent [of v] by blast
  have 5: "stat_line (label, v) =
     replicate (10 - length label) 32 @ label @ ascii '': '' @ format_3d v @ ascii '' % |''
       @ replicate (nat (v div 5)) FULL_BLOCK"
    by (simp add: stat_line_def rjust_def)
  have 6: "FULL_BLOCK \<notin> set label \<longrightarrow>
      count_list (stat_line (label, v)) FULL_BLOCK = nat (v div 5)"
    by (simp add: count_stat_line)
  have 7: "decimal_value (digits (nat v)) = nat v" by (rule decimal_value_digits)
  have 8: "fst (status now s) = fst (tick now s)" by (rule status_state)
  have 9: "set (digits (nat v)) \<subseteq> {48..57}" by (rule digits_range)
  have 10: "summary s =
     stat_line (ascii ''Hunger'', hunger s) @ [10] @
     stat_line (ascii ''Happiness'', happiness s) @ [10] @
     stat_line (ascii ''Energy'', energy s) @ [10] @
     stat_line (ascii ''Hygiene'', hygiene s)"
    by (simp add: summary_def bars_def)
  from 1 2 3 4 5 6 7 8 9 10 show ?thesis by blast
qed

theorem status_display_witness:
  "tick 0 pip = (pip, Inr ()) \<and>
   status 0 pip =
     (pip,
      Inr (ascii ''    Hunger:  65 % |'' @ replicate 13 FULL_BLOCK @ [10] @
           ascii '' Happiness:  60 % |'' @ replicate 12 FULL_BLOCK @ [10] @
           ascii ''    Energy:  55 % |'' @ replicate 11 FULL_BLOCK @ [10] @
           ascii ''   Hygiene:  70 % |'' @ replicate 14 FULL_BLOCK)) \<and>
   FULL_BLOCK \<notin> set (ascii ''Hunger'') \<and> 0 \<le> hunger pip \<and> hunger pip \<le> 100 \<and>
   count_list (stat_line (ascii ''Hunger'', hunger pip)) FULL_BLOCK = 13 \<and>
   hunger pip div 5 = 13 \<and> format_3d (hunger pip) = ascii '' 65'' \<and>
   stat_line (ascii ''Hunger'', 0) = ascii ''    Hunger:   0 % |'' \<and>
   stat_line (ascii ''Hunger'', 100) = ascii ''    Hunger: 100 % |'' @ replicate 20 FULL_BLOCK"
proof -
  have t0: "tick 0 pip = (pip, Inr ())" by (rule tick_pip_now)
  note d = status_display [of 0 pip "ascii ''Hunger''" "hunger pip"]
  from d t0 have 1: "status 0 pip = (pip, Inr (summary pip))" by (simp add: prod_eq_iff)
  from d have "summary pip =
     stat_line (ascii ''Hunger'', hunger pip) @ [10] @
     stat_line (ascii ''Happiness'', happiness pip) @ [10] @
     stat_line (ascii ''Energy'', energy pip) @ [10] @
     stat_line (ascii ''Hygiene'', hygiene pip)"
    by blast
  then have 2: "summary pip =
      ascii ''    Hunger:  65 % |'' @ replicate 13 FULL_BLOCK @ [10] @
      ascii '' Happiness:  60 % |'' @ replicate 12 FULL_BLOCK @ [10] @
      ascii ''    Energy:  55 % |'' @ replicate 11 FULL_BLOCK @ [10] @
      ascii ''   Hygiene:  70 % |'' @ replicate 14 FULL_BLOCK"
    by (simp only: pip_fields pip_lines append_assoc)
  have b: "FULL_BLOCK \<notin> set (ascii ''Hunger'')" by (rule block_not_in_ascii)
  from d have "FULL_BLOCK \<notin> set (ascii ''Hunger'') \<longrightarrow>
      count_list (stat_line (ascii ''Hunger'', hunger pip)) FULL_BLOCK = nat (hunger pip div 5)"
    by blast
  with b have 3: "count_list (stat_line (ascii ''Hunger'', hunger pip)) FULL_BLOCK = 13"
    by (simp add: pip_fields)
  have 4: "format_3d (hunger pip) = ascii '' 65''"
    unfolding pip_fields by code_simp
  from 1 2 have "status 0 pip =
     (pip,
      Inr (ascii ''    Hunger:  65 % |'' @ replicate 13 FULL_BLOCK @ [10] @
           ascii '' Happiness:  60 % |'' @ replicate 12 FULL_BLOCK @ [10] @
           ascii ''    Energy:  55 % |'' @ replicate 11 FULL_BLOCK @ [10] @
           ascii ''   Hygiene:  70 % |'' @ replicate 14 FULL_BLOCK))"
    by (simp only:)
  with t0 b 3 4 extreme_lines show ?thesis by (simp add: pip_fields)
qed

end
